theory Spec2Isabelle
  imports Main
begin

section \<open>The import worker (worker/src/index.ts)\<close>

text \<open>
  A shallow embedding of the worker's control code: the configuration read from the
  environment, the error classes, the two scheduled activities (the polling loop and the
  stalled-job scan), the wrapper \<open>safeSupabaseCall\<close> and the process-level handlers.

  Conventions of the embedding.
  \<^item> Durations and instants are \<open>int\<close> (milliseconds). The number \<open>parseInt\<close> returns is
    the double JavaScript computes; sums and differences of instants and durations are
    taken exactly, as they are for magnitudes up to \<open>2 ^ 53\<close>.
  \<^item> A JavaScript string is a \<open>string\<close>; a \<open>char\<close> is read as the code point below 256.
    The pictographs at the head of the log messages are left out of the message texts.
  \<^item> A value that may be \<open>undefined\<close> or \<open>null\<close> is an \<open>option\<close>.
  \<^item> An awaited computation is a pair: the effects it performed, in order, and how it
    ended (it returned, it threw, or the process exited inside it).
  \<^item> Every awaited call of the store and of \<open>processJob\<close> settles: it resolves or it
    rejects. Writing to the console and setting or clearing a timer do not throw.
  \<^item> The two activities, the polling loop and the timer's callback, are described one
    activation at a time; how their steps interleave is not part of the embedding.
\<close>

subsection \<open>Configuration\<close>

record WorkerConfig =
  id_cfg :: string
  pollingInterval :: int
  stalledJobTimeout :: int
  circuitBreakerResetTimeout :: int
  retryDelay :: int

definition DEFAULT_CONFIG :: WorkerConfig where
  "DEFAULT_CONFIG =
     \<lparr> id_cfg = ''worker1'',
       pollingInterval = 15000,
       stalledJobTimeout = 60000,
       circuitBreakerResetTimeout = 15000,
       retryDelay = 15000 \<rparr>"

text \<open>
  ECMAScript's \<open>parseInt(string)\<close> with no radix: leading white space is dropped, then an
  optional sign, then an optional \<open>0x\<close>/\<open>0X\<close> prefix (which selects radix 16); the value is
  that of the longest prefix of digits of the radix, converted to a Number, and \<open>NaN\<close> when
  that prefix is empty. Whatever follows the digits is ignored.

  A Number is an IEEE double. Of the doubles only \<open>NaN\<close>, the two infinities and the
  integers can be the result of \<open>parseInt\<close>, so these are the values of \<open>number\<close>; minus
  zero is \<open>Num 0\<close>.
\<close>

datatype number = NaN | Num int | PosInfinity | NegInfinity

definition isWhiteSpace :: "char \<Rightarrow> bool" where
  "isWhiteSpace c =
     (c = CHR 0x09 \<or> c = CHR 0x0A \<or> c = CHR 0x0B \<or> c = CHR 0x0C \<or> c = CHR 0x0D
      \<or> c = CHR 0x20 \<or> c = CHR 0xA0)"

definition digitValue :: "char \<Rightarrow> nat option" where
  "digitValue c =
     (let n = (of_char c :: nat) in
      if 48 \<le> n \<and> n \<le> 57 then Some (n - 48)
      else if 97 \<le> n \<and> n \<le> 122 then Some (n - 87)
      else if 65 \<le> n \<and> n \<le> 90 then Some (n - 55)
      else None)"

definition radixDigit :: "nat \<Rightarrow> char \<Rightarrow> nat option" where
  "radixDigit R c =
     (case digitValue c of
        None \<Rightarrow> None
      | Some d \<Rightarrow> if d < R then Some d else None)"

fun readDigits :: "nat \<Rightarrow> string \<Rightarrow> nat list" where
  "readDigits R [] = []"
| "readDigits R (c # cs) =
     (case radixDigit R c of
        None \<Rightarrow> []
      | Some d \<Rightarrow> d # readDigits R cs)"

definition mathInt :: "nat \<Rightarrow> nat list \<Rightarrow> nat" where
  "mathInt R ds = foldl (\<lambda>acc d. acc * R + d) 0 ds"

text \<open>
  The conversion of a non-negative integer to a double. A double holds 53 significant
  bits: \<open>shiftOf n\<close> is the number of low bits of \<open>n\<close> beyond those 53, and \<open>roundToDouble\<close>
  rounds them away, to the nearest value and to the even one on a tie. A rounded value of
  \<open>2 ^ 1024\<close> or more is infinite. (ECMAScript allows an implementation to approximate a
  decimal numeral of more than 20 significant digits; the value here is the exact one,
  rounded once.)
\<close>

function shiftOf :: "nat \<Rightarrow> nat" where
  "shiftOf n = (if n < 9007199254740992 then 0 else Suc (shiftOf (n div 2)))"
  by pat_completeness auto
termination
  by (relation "measure id") auto

declare shiftOf.simps [simp del]

definition roundToDouble :: "nat \<Rightarrow> nat" where
  "roundToDouble n =
     (let s = shiftOf n; q = n div 2 ^ s; r = n mod 2 ^ s; half = 2 ^ s div 2
      in if s = 0 then n
         else if half < r \<or> (r = half \<and> odd q) then (q + 1) * 2 ^ s
         else q * 2 ^ s)"

definition toNumber :: "int \<Rightarrow> nat \<Rightarrow> number" where
  "toNumber sign m =
     (let v = roundToDouble m
      in if 2 ^ 1024 \<le> v then (if sign < 0 then NegInfinity else PosInfinity)
         else Num (sign * int v))"

definition parseInt :: "string \<Rightarrow> number" where
  "parseInt inputString =
     (let S = dropWhile isWhiteSpace inputString;
          sign = (if take 1 S = ''-'' then - 1 else (1 :: int));
          S1 = (if take 1 S = ''+'' \<or> take 1 S = ''-'' then drop 1 S else S);
          hex = (take 2 S1 = ''0x'' \<or> take 2 S1 = ''0X'');
          R = (if hex then 16 else 10);
          Z = readDigits R (if hex then drop 2 S1 else S1)
      in if Z = [] then NaN else toNumber sign (mathInt R Z))"

text \<open>
  \<open>a || b\<close> on a string that may be undefined, and on a number: the left operand when
  it is truthy, the right one otherwise. The empty string, \<open>NaN\<close> and \<open>0\<close> are falsy; the
  infinities are truthy.
\<close>

definition orString :: "string option \<Rightarrow> string \<Rightarrow> string" where
  "orString v d = (case v of None \<Rightarrow> d | Some s \<Rightarrow> if s = [] then d else s)"

definition orNumber :: "number \<Rightarrow> int \<Rightarrow> number" where
  "orNumber v d =
     (case v of
        NaN \<Rightarrow> Num d
      | Num n \<Rightarrow> if n = 0 then Num d else Num n
      | PosInfinity \<Rightarrow> PosInfinity
      | NegInfinity \<Rightarrow> NegInfinity)"

text \<open>
  The durations of a \<open>WorkerConfig\<close> are integers. \<open>finite_number\<close> reads a resolved
  duration as one; an infinite duration (a variable of some 309 digits or more) has none.
\<close>

definition finite_number :: "number \<Rightarrow> int option" where
  "finite_number v =
     (case v of
        Num n \<Rightarrow> Some n
      | NaN \<Rightarrow> None
      | PosInfinity \<Rightarrow> None
      | NegInfinity \<Rightarrow> None)"

type_synonym environment = "string \<Rightarrow> string option"

text \<open>
  \<open>WORKER_CONFIG\<close>: the five fields, each resolved as in the source. The result is \<open>None\<close>
  when one of the four durations is infinite: the configuration exists in the program,
  but the integer durations of this embedding cannot hold it.
\<close>

definition WORKER_CONFIG :: "environment \<Rightarrow> WorkerConfig option" where
  "WORKER_CONFIG env =
     (case finite_number
             (orNumber (parseInt (orString (env ''POLLING_INTERVAL'') ''''))
                (pollingInterval DEFAULT_CONFIG)) of
        None \<Rightarrow> None
      | Some p \<Rightarrow>
     (case finite_number
             (orNumber (parseInt (orString (env ''STALLED_JOB_TIMEOUT'') ''''))
                (stalledJobTimeout DEFAULT_CONFIG)) of
        None \<Rightarrow> None
      | Some s \<Rightarrow>
     (case finite_number
             (orNumber (parseInt (orString (env ''CIRCUIT_BREAKER_RESET_TIMEOUT'') ''''))
                (circuitBreakerResetTimeout DEFAULT_CONFIG)) of
        None \<Rightarrow> None
      | Some c \<Rightarrow>
     (case finite_number
             (orNumber (parseInt (orString (env ''RETRY_DELAY'') ''''))
                (retryDelay DEFAULT_CONFIG)) of
        None \<Rightarrow> None
      | Some r \<Rightarrow>
          Some \<lparr> id_cfg = orString (env ''WORKER_ID'') (id_cfg DEFAULT_CONFIG),
                 pollingInterval = p,
                 stalledJobTimeout = s,
                 circuitBreakerResetTimeout = c,
                 retryDelay = r \<rparr>))))"

text \<open>
  The condition under which a numeric variable is replaced by its default: the variable
  is not set, or the integer parsed from it is falsy (\<open>NaN\<close> or zero).
\<close>

definition missingOrFalsy :: "string option \<Rightarrow> bool" where
  "missingOrFalsy v =
     (case v of
        None \<Rightarrow> True
      | Some s \<Rightarrow> parseInt s = NaN \<or> parseInt s = Num 0)"

definition isInfinite :: "number \<Rightarrow> bool" where
  "isInfinite v = (v = PosInfinity \<or> v = NegInfinity)"

subsection \<open>Thrown values\<close>

text \<open>
  The error classes of the worker. \<open>WorkerError message code\<close> is an instance of the base
  class itself; the four subclasses fix the code in their constructors. \<open>OtherThrown\<close> is
  any thrown value that is not an instance of \<open>WorkerError\<close> (a \<open>TypeError\<close> of the network
  layer, a \<open>RangeError\<close>, a string).
\<close>

datatype thrown =
    WorkerError string string
  | SupabaseError string string
  | CircuitBreakerError string
  | JobProcessingError string string
  | StalledJobError string string
  | OtherThrown string

fun code :: "thrown \<Rightarrow> string option" where
  "code (WorkerError message c) = Some c"
| "code (SupabaseError message originalError) = Some ''SUPABASE_ERROR''"
| "code (CircuitBreakerError message) = Some ''CIRCUIT_BREAKER_ERROR''"
| "code (JobProcessingError message jobId) = Some ''JOB_PROCESSING_ERROR''"
| "code (StalledJobError message jobId) = Some ''STALLED_JOB_ERROR''"
| "code (OtherThrown v) = None"

fun instanceofWorkerError :: "thrown \<Rightarrow> bool" where
  "instanceofWorkerError (OtherThrown v) = False"
| "instanceofWorkerError e = True"

fun instanceofCircuitBreakerError :: "thrown \<Rightarrow> bool" where
  "instanceofCircuitBreakerError (CircuitBreakerError message) = True"
| "instanceofCircuitBreakerError e = False"

fun instanceofSupabaseError :: "thrown \<Rightarrow> bool" where
  "instanceofSupabaseError (SupabaseError message originalError) = True"
| "instanceofSupabaseError e = False"

fun instanceofJobProcessingError :: "thrown \<Rightarrow> bool" where
  "instanceofJobProcessingError (JobProcessingError message jobId) = True"
| "instanceofJobProcessingError e = False"

subsection \<open>Jobs and the store\<close>

datatype jobStatus = Pending | Processing | Completed | Failed

record ImportJob =
  id_job :: string
  status :: jobStatus
  created_at :: int
  updated_at :: int
  worker_id :: "string option"

text \<open>
  What the query builder of \<open>recoverStalledJobs\<close> sends: \<open>from('import_jobs')\<close>,
  \<open>select('*')\<close>, \<open>eq('status', s)\<close>, \<open>lt('updated_at', t)\<close>, \<open>order('created_at')\<close> (ascending is
  the builder's default) and \<open>limit(n)\<close>. \<open>runSelect\<close> is what a store holding the rows
  \<open>rows\<close> answers to it.
\<close>

record selectQuery =
  fromTable :: string
  eqStatus :: jobStatus
  ltUpdatedAt :: int
  limitRows :: nat

definition runSelect :: "ImportJob list \<Rightarrow> selectQuery \<Rightarrow> ImportJob list" where
  "runSelect rows q =
     take (limitRows q)
       (sort_key created_at
          (filter (\<lambda>j. status j = eqStatus q \<and> updated_at j < ltUpdatedAt q) rows))"

text \<open>
  A store call settles in one of three ways: the promise resolves to \<open>{data, error}\<close> with
  \<open>error\<close> null, it resolves with \<open>error\<close> set, or it rejects.
\<close>

record response =
  data :: "ImportJob list option"
  error :: "string option"

datatype 'a settled = Resolves 'a | Rejects thrown

datatype storeFailure = ReportsError string | RejectsWith thrown

text \<open>
  The surroundings of one activation (one loop iteration, or one scan): what the store
  answers to \<open>claim_next_pending_job\<close>, the rows it holds and whether the select fails, and
  how \<open>processJob\<close> settles for a job and a worker id.
\<close>

record world =
  rpcResult :: "response settled"
  rows :: "ImportJob list"
  selectFailure :: "storeFailure option"
  processJobResult :: "ImportJob \<Rightarrow> string \<Rightarrow> unit settled"

subsection \<open>Effects and awaited computations\<close>

datatype effect =
    Rpc string string
  | Select selectQuery
  | ProcessJob ImportJob string
  | ConsoleLog string
  | ConsoleError string "thrown option"
  | Sleep int
  | SetInterval int
  | ClearInterval
  | Exit int

datatype 'a outcome = Returns 'a | Throws thrown | Exits int

type_synonym 'a io = "effect list \<times> 'a outcome"

definition ret :: "'a \<Rightarrow> 'a io" where
  "ret x = ([], Returns x)"

definition throw :: "thrown \<Rightarrow> 'a io" where
  "throw e = ([], Throws e)"

definition perform :: "effect \<Rightarrow> unit io" where
  "perform ev = ([ev], Returns ())"

definition andThen :: "'a io \<Rightarrow> ('a \<Rightarrow> 'b io) \<Rightarrow> 'b io" where
  "andThen m f =
     (case m of
        (t, Returns x) \<Rightarrow> (case f x of (t', r) \<Rightarrow> (t @ t', r))
      | (t, Throws e) \<Rightarrow> (t, Throws e)
      | (t, Exits c) \<Rightarrow> (t, Exits c))"

definition tryCatch :: "'a io \<Rightarrow> (thrown \<Rightarrow> 'a io) \<Rightarrow> 'a io" where
  "tryCatch m handler =
     (case m of
        (t, Returns x) \<Rightarrow> (t, Returns x)
      | (t, Throws e) \<Rightarrow> (case handler e of (t', r) \<Rightarrow> (t @ t', r))
      | (t, Exits c) \<Rightarrow> (t, Exits c))"

definition await :: "effect \<Rightarrow> 'a settled \<Rightarrow> 'a io" where
  "await ev s = ([ev], (case s of Resolves x \<Rightarrow> Returns x | Rejects e \<Rightarrow> Throws e))"

definition sleep :: "int \<Rightarrow> unit io" where
  "sleep ms = perform (Sleep ms)"

definition processExit :: "int \<Rightarrow> 'a io" where
  "processExit c = ([Exit c], Exits c)"

definition processJob :: "world \<Rightarrow> ImportJob \<Rightarrow> string \<Rightarrow> unit io" where
  "processJob w job workerId = await (ProcessJob job workerId) (processJobResult w job workerId)"

definition rpc :: "world \<Rightarrow> string \<Rightarrow> string \<Rightarrow> response io" where
  "rpc w fn worker_id_input = await (Rpc fn worker_id_input) (rpcResult w)"

definition select :: "world \<Rightarrow> selectQuery \<Rightarrow> response io" where
  "select w q =
     await (Select q)
       (case selectFailure w of
          None \<Rightarrow> Resolves \<lparr> data = Some (runSelect (rows w) q), error = None \<rparr>
        | Some (ReportsError e) \<Rightarrow> Resolves \<lparr> data = None, error = Some e \<rparr>
        | Some (RejectsWith x) \<Rightarrow> Rejects x)"

text \<open>
  \<open>new Date(t).toISOString()\<close>: a \<open>Date\<close> holds an instant of at most 8.64e15 milliseconds
  from the epoch, and \<open>toISOString\<close> throws a \<open>RangeError\<close> on an invalid date. The text it
  returns stands for the instant, which is what the store compares.
\<close>

definition validTime :: "int \<Rightarrow> bool" where
  "validTime t = (- 8640000000000000 \<le> t \<and> t \<le> 8640000000000000)"

definition toISOString :: "int \<Rightarrow> int io" where
  "toISOString t =
     (if validTime t then ret t else throw (OtherThrown ''RangeError: Invalid time value''))"

definition tag :: "WorkerConfig \<Rightarrow> string \<Rightarrow> string" where
  "tag cfg msg = ''[Worker '' @ id_cfg cfg @ ''] '' @ msg"

subsection \<open>recoverStalledJobs\<close>

definition recoverStalledJobs_try :: "WorkerConfig \<Rightarrow> int \<Rightarrow> world \<Rightarrow> unit io" where
  "recoverStalledJobs_try cfg now w =
     andThen (toISOString (now - stalledJobTimeout cfg)) (\<lambda>stalledTimeout.
     andThen (select w \<lparr> fromTable = ''import_jobs'', eqStatus = Processing,
                          ltUpdatedAt = stalledTimeout, limitRows = 1 \<rparr>) (\<lambda>r.
       case error r of
         Some e \<Rightarrow> throw (SupabaseError ''Failed to fetch stalled jobs'' e)
       | None \<Rightarrow>
           (case data r of
              Some (job # rest) \<Rightarrow>
                andThen (perform (ConsoleLog (tag cfg (''Recovering stalled job: '' @ id_job job))))
                  (\<lambda>u. processJob w job (id_cfg cfg))
            | Some [] \<Rightarrow> ret ()
            | None \<Rightarrow> ret ())))"

definition recoverStalledJobs_catch :: "WorkerConfig \<Rightarrow> thrown \<Rightarrow> unit io" where
  "recoverStalledJobs_catch cfg e =
     andThen (perform (ConsoleError (tag cfg ''Error recovering stalled jobs:'') (Some e)))
       (\<lambda>u. sleep (retryDelay cfg))"

definition recoverStalledJobs :: "WorkerConfig \<Rightarrow> int \<Rightarrow> world \<Rightarrow> unit io" where
  "recoverStalledJobs cfg now w =
     tryCatch (recoverStalledJobs_try cfg now w) (recoverStalledJobs_catch cfg)"

subsection \<open>checkForPendingJobs\<close>

definition checkForPendingJobs_try :: "WorkerConfig \<Rightarrow> world \<Rightarrow> unit io" where
  "checkForPendingJobs_try cfg w =
     andThen (rpc w ''claim_next_pending_job'' (id_cfg cfg)) (\<lambda>r.
       case error r of
         Some e \<Rightarrow> throw (SupabaseError ''Failed to claim next job'' e)
       | None \<Rightarrow>
           (case data r of
              None \<Rightarrow> ret ()
            | Some [] \<Rightarrow> ret ()
            | Some (job # rest) \<Rightarrow> processJob w job (id_cfg cfg)))"

definition checkForPendingJobs_catch :: "WorkerConfig \<Rightarrow> thrown \<Rightarrow> unit io" where
  "checkForPendingJobs_catch cfg e =
     andThen (perform (ConsoleError (tag cfg ''Error checking for pending jobs:'') (Some e)))
       (\<lambda>u. sleep (retryDelay cfg))"

definition checkForPendingJobs :: "WorkerConfig \<Rightarrow> world \<Rightarrow> unit io" where
  "checkForPendingJobs cfg w =
     tryCatch (checkForPendingJobs_try cfg w) (checkForPendingJobs_catch cfg)"

subsection \<open>safeSupabaseCall\<close>

definition safeSupabaseCall :: "WorkerConfig \<Rightarrow> 'a io \<Rightarrow> 'a io" where
  "safeSupabaseCall cfg callback =
     tryCatch callback (\<lambda>e.
       if instanceofCircuitBreakerError e then throw e
       else if instanceofSupabaseError e then
         andThen (perform (ConsoleError (tag cfg ''Supabase error:'') (Some e))) (\<lambda>u. throw e)
       else
         andThen (perform (ConsoleError (tag cfg ''Unexpected error:'') (Some e)))
           (\<lambda>u. throw (WorkerError ''Unexpected error during Supabase operation''
                          ''UNKNOWN_ERROR'')))"

subsection \<open>startWorker\<close>

fun jobId :: "thrown \<Rightarrow> string" where
  "jobId (JobProcessingError message j) = j"
| "jobId (StalledJobError message j) = j"
| "jobId e = []"

text \<open>The \<open>catch\<close> of the loop body: the chain of \<open>instanceof\<close> tests, in the source's order.\<close>

definition startWorker_catch :: "WorkerConfig \<Rightarrow> thrown \<Rightarrow> unit io" where
  "startWorker_catch cfg e =
     (if instanceofCircuitBreakerError e then
        andThen
          (perform (ConsoleLog (tag cfg ''Circuit breaker triggered, waiting before retry...'')))
          (\<lambda>u. sleep (circuitBreakerResetTimeout cfg))
      else if instanceofJobProcessingError e then
        andThen
          (perform (ConsoleError (tag cfg (''Job processing error for '' @ jobId e @ '':''))
             (Some e)))
          (\<lambda>u. sleep (retryDelay cfg))
      else if instanceofSupabaseError e then
        andThen (perform (ConsoleError (tag cfg ''Supabase error:'') (Some e)))
          (\<lambda>u. sleep (retryDelay cfg))
      else
        andThen (perform (ConsoleError (tag cfg ''Unexpected error:'') (Some e)))
          (\<lambda>u. sleep (retryDelay cfg)))"

text \<open>The body of \<open>while (true)\<close>: the inner \<open>try\<close>/\<open>catch\<close>, then the polling sleep.\<close>

definition startWorker_iteration :: "WorkerConfig \<Rightarrow> world \<Rightarrow> unit io" where
  "startWorker_iteration cfg w =
     andThen (tryCatch (checkForPendingJobs cfg w) (startWorker_catch cfg))
       (\<lambda>u. sleep (pollingInterval cfg))"

text \<open>
  \<open>while (true) body\<close>, run for at most \<open>fuel\<close> iterations. The loop has no exit of its own:
  it is left only when the body throws or the process exits inside it. \<open>None\<close> says that
  the loop is still running when the fuel is used up; the iteration numbered \<open>i\<close> meets
  the surroundings \<open>body i\<close> is given.
\<close>

fun whileTrue :: "(nat \<Rightarrow> unit io) \<Rightarrow> nat \<Rightarrow> nat \<Rightarrow> effect list \<times> unit outcome option" where
  "whileTrue body i 0 = ([], None)"
| "whileTrue body i (Suc fuel) =
     (case body i of
        (t, Returns u) \<Rightarrow> (case whileTrue body (Suc i) fuel of (t', r) \<Rightarrow> (t @ t', r))
      | (t, Throws e) \<Rightarrow> (t, Some (Throws e))
      | (t, Exits c) \<Rightarrow> (t, Some (Exits c)))"

text \<open>
  Listeners of the process object. \<open>process.on\<close> appends a listener; an event calls the
  listeners registered for it one after the other, in the order of registration, and
  \<open>process.exit\<close> ends the process inside the listener that calls it, so that no later
  listener runs.
\<close>

datatype procEvent = SIGTERM | SIGINT | UncaughtException | UnhandledRejection

type_synonym listener = "thrown option \<Rightarrow> unit io"

type_synonym listeners = "(procEvent \<times> listener) list"

definition process_on :: "procEvent \<Rightarrow> listener \<Rightarrow> listeners \<Rightarrow> listeners" where
  "process_on ev l ls = ls @ [(ev, l)]"

fun runListeners :: "listener list \<Rightarrow> thrown option \<Rightarrow> unit io" where
  "runListeners [] a = ret ()"
| "runListeners (l # ls) a = andThen (l a) (\<lambda>u. runListeners ls a)"

definition process_emit :: "listeners \<Rightarrow> procEvent \<Rightarrow> thrown option \<Rightarrow> unit io" where
  "process_emit ls ev a = runListeners (map snd (filter (\<lambda>p. fst p = ev) ls)) a"

text \<open>The callback given to \<open>setInterval\<close>, for a tick at the instant \<open>now\<close>.\<close>

definition stalledJobsInterval_callback :: "WorkerConfig \<Rightarrow> int \<Rightarrow> world \<Rightarrow> unit io" where
  "stalledJobsInterval_callback cfg now w =
     tryCatch (recoverStalledJobs cfg now w)
       (\<lambda>e. perform (ConsoleError (tag cfg ''Error checking stalled jobs:'') (Some e)))"

text \<open>
  \<open>startWorker\<close>: the two log lines, the timer of the stalled-job scan, the two listeners
  that clear it, and the loop inside the outer \<open>try\<close>/\<open>catch\<close>. It takes the listeners
  registered so far and returns them with its own.
\<close>

definition startWorker ::
  "WorkerConfig \<Rightarrow> (nat \<Rightarrow> world) \<Rightarrow> nat \<Rightarrow> listeners
     \<Rightarrow> listeners \<times> effect list \<times> unit outcome option" where
  "startWorker cfg ws fuel ls =
     (let t0 = [ConsoleLog (tag cfg ''Starting import worker...''),
                ConsoleLog (tag cfg ''Configuration:''),
                SetInterval (stalledJobTimeout cfg)];
          ls1 = process_on SIGTERM (\<lambda>a. perform ClearInterval) ls;
          ls2 = process_on SIGINT (\<lambda>a. perform ClearInterval) ls1
      in case whileTrue (\<lambda>i. startWorker_iteration cfg (ws i)) 0 fuel of
           (t, None) \<Rightarrow> (ls2, t0 @ t, None)
         | (t, Some (Throws e)) \<Rightarrow>
             (ls2,
              t0 @ t @ [ConsoleError (tag cfg ''Fatal error:'') (Some e), ClearInterval, Exit 1],
              Some (Exits 1))
         | (t, Some (Returns u)) \<Rightarrow> (ls2, t0 @ t, Some (Returns u))
         | (t, Some (Exits c)) \<Rightarrow> (ls2, t0 @ t, Some (Exits c)))"

subsection \<open>The module's top level\<close>

definition truthy :: "string option \<Rightarrow> bool" where
  "truthy v = (case v of None \<Rightarrow> False | Some s \<Rightarrow> s \<noteq> [])"

text \<open>The four \<open>process.on\<close> calls of the top level, in the source's order.\<close>

definition topLevelListeners :: "WorkerConfig \<Rightarrow> listeners \<Rightarrow> listeners" where
  "topLevelListeners cfg ls =
     (let ls1 = process_on SIGTERM (\<lambda>a.
            andThen
              (perform (ConsoleLog (tag cfg ''Received SIGTERM, shutting down gracefully...'')))
              (\<lambda>u. processExit 0)) ls;
          ls2 = process_on SIGINT (\<lambda>a.
            andThen
              (perform (ConsoleLog (tag cfg ''Received SIGINT, shutting down gracefully...'')))
              (\<lambda>u. processExit 0)) ls1;
          ls3 = process_on UncaughtException (\<lambda>a.
            andThen (perform (ConsoleError (tag cfg ''Uncaught exception:'') a))
              (\<lambda>u. processExit 1)) ls2
      in process_on UnhandledRejection (\<lambda>a.
            andThen (perform (ConsoleError (tag cfg ''Unhandled rejection:'') a))
              (\<lambda>u. processExit 1)) ls3)"

text \<open>
  The module from its first statement: the check of the two mandatory variables, the
  call of \<open>createClient\<close>, the configuration, the top-level listeners, and the call of
  \<open>startWorker\<close> with its \<open>.catch\<close>. The environment \<open>env\<close> is \<open>process.env\<close> as
  \<open>dotenv.config()\<close> leaves it.

  \<open>createClient\<close> belongs to the store's client library. It is a parameter here: given
  the URL and the key it returns a client (\<open>None\<close>) or throws (\<open>Some e\<close>), as it does on
  a URL it cannot parse. It is called before any listener is registered, so a value it
  throws meets the runtime's own handling of an uncaught exception: the value is printed
  and the process exits with code 1.

  The result is \<open>None\<close> when the configuration has an infinite duration (see
  \<open>WORKER_CONFIG\<close>); otherwise it holds the listeners registered, the effects, and how the
  run ended (\<open>None\<close>: the loop is still running).
\<close>

definition runModule ::
  "(string \<Rightarrow> string \<Rightarrow> thrown option) \<Rightarrow> environment \<Rightarrow> (nat \<Rightarrow> world) \<Rightarrow> nat
     \<Rightarrow> (listeners \<times> effect list \<times> unit outcome option) option" where
  "runModule createClient env ws fuel =
     (if \<not> truthy (env ''NEXT_PUBLIC_SUPABASE_URL'') \<or> \<not> truthy (env ''SUPABASE_SERVICE_ROLE_KEY'')
      then Some ([], [ConsoleError ''Missing environment variables:'' None, Exit 1],
                 Some (Exits 1))
      else
        (case createClient (orString (env ''NEXT_PUBLIC_SUPABASE_URL'') '''')
                (orString (env ''SUPABASE_SERVICE_ROLE_KEY'') '''') of
           Some e \<Rightarrow> Some ([], [ConsoleError ''Uncaught'' (Some e), Exit 1], Some (Exits 1))
         | None \<Rightarrow>
             (case WORKER_CONFIG env of
                None \<Rightarrow> None
              | Some cfg \<Rightarrow>
                  (case startWorker cfg ws fuel (topLevelListeners cfg []) of
                     (ls, t, Some (Throws e)) \<Rightarrow>
                       Some (ls,
                             t @ [ConsoleError (tag cfg ''Fatal error:'') (Some e), Exit 1],
                             Some (Exits 1))
                   | (ls, t, Some (Returns u)) \<Rightarrow> Some (ls, t, Some (Returns u))
                   | (ls, t, Some (Exits c)) \<Rightarrow> Some (ls, t, Some (Exits c))
                   | (ls, t, None) \<Rightarrow> Some (ls, t, None)))))"

subsection \<open>Predicates used in the statements\<close>

text \<open>
  The condition of the early \<open>return\<close> of \<open>checkForPendingJobs\<close>: the store answered
  without an error and with no row (\<open>!jobs || jobs.length === 0\<close>).
\<close>

definition noJobClaimed :: "world \<Rightarrow> bool" where
  "noJobClaimed w =
     (case rpcResult w of
        Rejects e \<Rightarrow> False
      | Resolves r \<Rightarrow> error r = None \<and> (data r = None \<or> data r = Some []))"

text \<open>Tests on effects, and the query \<open>recoverStalledJobs\<close> sends at the instant \<open>now\<close>.\<close>

fun isClaim :: "effect \<Rightarrow> bool" where
  "isClaim (Rpc fn a) = True"
| "isClaim ev = False"

fun isProcessJob :: "effect \<Rightarrow> bool" where
  "isProcessJob (ProcessJob job wid) = True"
| "isProcessJob ev = False"

fun isSetInterval :: "effect \<Rightarrow> bool" where
  "isSetInterval (SetInterval p) = True"
| "isSetInterval ev = False"

definition stalledQuery :: "WorkerConfig \<Rightarrow> int \<Rightarrow> selectQuery" where
  "stalledQuery cfg now =
     \<lparr> fromTable = ''import_jobs'', eqStatus = Processing,
       ltUpdatedAt = now - stalledJobTimeout cfg, limitRows = 1 \<rparr>"



subsection \<open>The store calls behind the wrapper\<close>



subsection \<open>Concrete inputs\<close>

text \<open>
  An environment with the two mandatory variables set, a polling interval of \<open>0\<close>, a
  circuit-breaker timeout that is not a number, a retry delay with a numeric prefix, and
  neither a stalled-job timeout nor a worker id.
\<close>

definition env0 :: environment where
  "env0 = (\<lambda>v. None)
     (''NEXT_PUBLIC_SUPABASE_URL'' \<mapsto> ''https://store.example'',
      ''SUPABASE_SERVICE_ROLE_KEY'' \<mapsto> ''secret'',
      ''POLLING_INTERVAL'' \<mapsto> ''0'',
      ''CIRCUIT_BREAKER_RESET_TIMEOUT'' \<mapsto> ''abc'',
      ''RETRY_DELAY'' \<mapsto> ''15abc'')"

text \<open>
  A configuration whose four durations differ, a claimed job, and the surroundings used
  below: an empty queue; a claimed job whose processing rejects with a
  \<open>CircuitBreakerError\<close>; a store whose calls reject with a network error.
\<close>

definition cfg1 :: WorkerConfig where
  "cfg1 = \<lparr> id_cfg = ''w7'', pollingInterval = 1000, stalledJobTimeout = 60000,
            circuitBreakerResetTimeout = 30000, retryDelay = 15000 \<rparr>"

definition job1 :: ImportJob where
  "job1 = \<lparr> id_job = ''j1'', status = Processing, created_at = 5, updated_at = 7,
            worker_id = Some ''w7'' \<rparr>"

definition wEmpty :: world where
  "wEmpty = \<lparr> rpcResult = Resolves \<lparr> data = Some [], error = None \<rparr>, rows = [],
              selectFailure = None, processJobResult = (\<lambda>j k. Resolves ()) \<rparr>"

definition wBreaker :: world where
  "wBreaker = \<lparr> rpcResult = Resolves \<lparr> data = Some [job1], error = None \<rparr>, rows = [],
                selectFailure = None,
                processJobResult = (\<lambda>j k. Rejects (CircuitBreakerError ''open'')) \<rparr>"

definition wNetwork :: world where
  "wNetwork = \<lparr> rpcResult = Rejects (OtherThrown ''fetch failed''), rows = [],
                selectFailure = Some (RejectsWith (OtherThrown ''fetch failed'')),
                processJobResult = (\<lambda>j k. Resolves ()) \<rparr>"

text \<open>
  A scan at the instant 1000000 with a timeout of 60000: the boundary is 940000. Of the
  four rows, one is exactly at the boundary, two are older (the one created first is
  \<open>jobStale2\<close>), and one is pending.
\<close>

definition jobBoundary :: ImportJob where
  "jobBoundary = \<lparr> id_job = ''jb'', status = Processing, created_at = 10,
                   updated_at = 940000, worker_id = Some ''w3'' \<rparr>"

definition jobStale1 :: ImportJob where
  "jobStale1 = \<lparr> id_job = ''js1'', status = Processing, created_at = 30,
                 updated_at = 939999, worker_id = Some ''w3'' \<rparr>"

definition jobStale2 :: ImportJob where
  "jobStale2 = \<lparr> id_job = ''js2'', status = Processing, created_at = 20,
                 updated_at = 500000, worker_id = Some ''w4'' \<rparr>"

definition jobPending :: ImportJob where
  "jobPending = \<lparr> id_job = ''jp'', status = Pending, created_at = 5,
                  updated_at = 1, worker_id = None \<rparr>"

definition wScan :: world where
  "wScan = \<lparr> rpcResult = Resolves \<lparr> data = Some [], error = None \<rparr>,
             rows = [jobBoundary, jobStale1, jobStale2, jobPending],
             selectFailure = None, processJobResult = (\<lambda>j k. Resolves ()) \<rparr>"

text \<open>
  The configuration \<open>env0\<close> resolves to, a \<open>createClient\<close> that throws on a URL with no
  scheme, a store that reports a failed call, and a claimed job whose processing rejects
  with a value of its own.
\<close>

definition cfg0 :: WorkerConfig where
  "cfg0 = \<lparr> id_cfg = ''worker1'', pollingInterval = 15000, stalledJobTimeout = 60000,
            circuitBreakerResetTimeout = 15000, retryDelay = 15 \<rparr>"

definition createClient0 :: "string \<Rightarrow> string \<Rightarrow> thrown option" where
  "createClient0 supabaseUrl supabaseKey =
     (if take 7 supabaseUrl = ''http://'' \<or> take 8 supabaseUrl = ''https://'' then None
      else Some (OtherThrown ''TypeError: Invalid URL''))"



section \<open>Properties\<close>

subsection \<open>Awaited computations and the claim step\<close>

lemma tryCatch_Returns: "tryCatch (t, Returns x) h = (t, Returns x)"
  by (simp add: tryCatch_def)

lemma tryCatch_Throws: "tryCatch (t, Throws e) h = (t @ fst (h e), snd (h e))"
  by (simp add: tryCatch_def split: prod.splits)

lemma tryCatch_Exits: "tryCatch (t, Exits c) h = (t, Exits c)"
  by (simp add: tryCatch_def)

lemma andThen_Returns: "andThen (t, Returns x) f = (t @ fst (f x), snd (f x))"
  by (simp add: andThen_def split: prod.splits)

lemma andThen_Throws: "andThen (t, Throws e) f = (t, Throws e)"
  by (simp add: andThen_def)

lemma andThen_Exits: "andThen (t, Exits c) f = (t, Exits c)"
  by (simp add: andThen_def)

lemmas io_simps = tryCatch_Returns tryCatch_Throws tryCatch_Exits andThen_Returns andThen_Throws
  andThen_Exits ret_def throw_def perform_def sleep_def await_def processExit_def

lemma checkForPendingJobs_catch_eq:
  "checkForPendingJobs_catch cfg e =
     ([ConsoleError (tag cfg ''Error checking for pending jobs:'') (Some e),
       Sleep (retryDelay cfg)], Returns ())"
  by (simp add: checkForPendingJobs_catch_def io_simps)

lemma recoverStalledJobs_catch_eq:
  "recoverStalledJobs_catch cfg e =
     ([ConsoleError (tag cfg ''Error recovering stalled jobs:'') (Some e),
       Sleep (retryDelay cfg)], Returns ())"
  by (simp add: recoverStalledJobs_catch_def io_simps)

lemma checkForPendingJobs_try_not_Exits: "snd (checkForPendingJobs_try cfg w) \<noteq> Exits c"
  by (simp add: checkForPendingJobs_try_def rpc_def processJob_def io_simps
      split: settled.splits option.splits list.splits)

lemma checkForPendingJobs_Returns:
  "checkForPendingJobs_try cfg w = (t, Returns u)
     \<Longrightarrow> checkForPendingJobs cfg w = (t, Returns ())"
  by (simp add: checkForPendingJobs_def io_simps)

lemma checkForPendingJobs_Throws:
  "checkForPendingJobs_try cfg w = (t, Throws e)
     \<Longrightarrow> checkForPendingJobs cfg w =
         (t @ [ConsoleError (tag cfg ''Error checking for pending jobs:'') (Some e),
               Sleep (retryDelay cfg)], Returns ())"
  by (simp add: checkForPendingJobs_def io_simps checkForPendingJobs_catch_eq)

lemma checkForPendingJobs_snd: "snd (checkForPendingJobs cfg w) = Returns ()"
proof (cases "checkForPendingJobs_try cfg w")
  case (Pair t r)
  show ?thesis
  proof (cases r)
    case (Returns u)
    with Pair show ?thesis by (simp add: checkForPendingJobs_Returns)
  next
    case (Throws e)
    with Pair show ?thesis by (simp add: checkForPendingJobs_Throws)
  next
    case (Exits c)
    with Pair checkForPendingJobs_try_not_Exits [of cfg w c] show ?thesis by simp
  qed
qed

lemma tryCatch_no_throw: "snd m = Returns x \<Longrightarrow> tryCatch m h = m"
  by (cases m) (simp add: tryCatch_Returns)

lemma startWorker_iteration_eq:
  "startWorker_iteration cfg w =
     (fst (checkForPendingJobs cfg w) @ [Sleep (pollingInterval cfg)], Returns ())"
proof -
  have "tryCatch (checkForPendingJobs cfg w) (startWorker_catch cfg) = checkForPendingJobs cfg w"
    by (rule tryCatch_no_throw [OF checkForPendingJobs_snd])
  moreover have "checkForPendingJobs cfg w = (fst (checkForPendingJobs cfg w), Returns ())"
    by (simp add: prod_eq_iff checkForPendingJobs_snd)
  ultimately have "startWorker_iteration cfg w =
      andThen (fst (checkForPendingJobs cfg w), Returns ()) (\<lambda>u. sleep (pollingInterval cfg))"
    by (simp add: startWorker_iteration_def)
  then show ?thesis by (simp add: io_simps)
qed

lemma whileTrue_all_return:
  "(\<And>j. snd (body j) = Returns ())
     \<Longrightarrow> whileTrue body i fuel = (concat (map (\<lambda>j. fst (body j)) [i ..< i + fuel]), None)"
proof (induction fuel arbitrary: i)
  case 0
  show ?case by simp
next
  case (Suc fuel)
  have b: "body i = (fst (body i), Returns ())"
    by (simp add: prod_eq_iff Suc.prems)
  have "whileTrue body i (Suc fuel) =
      (fst (body i) @ fst (whileTrue body (Suc i) fuel), snd (whileTrue body (Suc i) fuel))"
    by (subst whileTrue.simps, subst b) (simp split: prod.splits)
  also have "\<dots> = (fst (body i) @ concat (map (\<lambda>j. fst (body j)) [Suc i ..< Suc i + fuel]), None)"
    by (simp add: Suc.IH [OF Suc.prems])
  also have "\<dots> = (concat (map (\<lambda>j. fst (body j)) (i # [Suc i ..< Suc i + fuel])), None)"
    by simp
  also have "i # [Suc i ..< Suc i + fuel] = [i ..< i + Suc fuel]"
    using upt_conv_Cons [of i "i + Suc fuel"] by simp
  finally show ?case .
qed

lemma startWorker_loop_running:
  "whileTrue (\<lambda>i. startWorker_iteration cfg (ws i)) i fuel =
     (concat (map (\<lambda>j. fst (startWorker_iteration cfg (ws j))) [i ..< i + fuel]), None)"
  by (rule whileTrue_all_return) (simp add: startWorker_iteration_eq)

lemma startWorker_eq:
  "startWorker cfg ws fuel ls =
     (process_on SIGINT (\<lambda>a. perform ClearInterval)
        (process_on SIGTERM (\<lambda>a. perform ClearInterval) ls),
      [ConsoleLog (tag cfg ''Starting import worker...''),
       ConsoleLog (tag cfg ''Configuration:''),
       SetInterval (stalledJobTimeout cfg)]
      @ concat (map (\<lambda>j. fst (startWorker_iteration cfg (ws j))) [0 ..< fuel]),
      None)"
  by (simp add: startWorker_def startWorker_loop_running)

subsection \<open>The polling loop\<close>


lemma wBreaker_try:
  "checkForPendingJobs_try cfg1 wBreaker =
     ([Rpc ''claim_next_pending_job'' ''w7'', ProcessJob job1 ''w7''],
      Throws (CircuitBreakerError ''open''))"
  by (simp add: checkForPendingJobs_try_def rpc_def processJob_def io_simps wBreaker_def cfg1_def)

text \<open>
  Claim C5. Every error raised while claiming and processing, a \<open>CircuitBreakerError\<close>
  included, is caught by the \<open>catch\<close> of \<open>checkForPendingJobs\<close> itself, which logs it and
  sleeps \<open>retryDelay\<close>; \<open>checkForPendingJobs\<close> always returns, so the \<open>catch\<close> around its
  call in the loop never runs, whatever handler stands there: the iteration is the call
  followed by the polling sleep, and the circuit-breaker branch with its log line is not
  reached.
\<close>

theorem claim_step_catches_everything:
  "snd (checkForPendingJobs cfg w) = Returns () \<and>
   (\<forall>t e. checkForPendingJobs_try cfg w = (t, Throws e) \<longrightarrow>
      checkForPendingJobs cfg w =
        (t @ [ConsoleError (tag cfg ''Error checking for pending jobs:'') (Some e),
              Sleep (retryDelay cfg)], Returns ())) \<and>
   (\<forall>h. tryCatch (checkForPendingJobs cfg w) h = checkForPendingJobs cfg w) \<and>
   startWorker_iteration cfg w =
     andThen (checkForPendingJobs cfg w) (\<lambda>u. sleep (pollingInterval cfg)) \<and>
   ConsoleLog (tag cfg ''Circuit breaker triggered, waiting before retry...'')
     \<notin> set (fst (startWorker_iteration cfg w))"
proof -
  have a: "snd (checkForPendingJobs cfg w) = Returns ()"
    by (rule checkForPendingJobs_snd)
  have b: "\<forall>t e. checkForPendingJobs_try cfg w = (t, Throws e) \<longrightarrow>
      checkForPendingJobs cfg w =
        (t @ [ConsoleError (tag cfg ''Error checking for pending jobs:'') (Some e),
              Sleep (retryDelay cfg)], Returns ())"
    by (simp add: checkForPendingJobs_Throws)
  have c: "\<forall>h. tryCatch (checkForPendingJobs cfg w) h = checkForPendingJobs cfg w"
    by (simp add: tryCatch_no_throw [OF a])
  have d: "startWorker_iteration cfg w =
     andThen (checkForPendingJobs cfg w) (\<lambda>u. sleep (pollingInterval cfg))"
    by (simp add: startWorker_iteration_def c)
  have e: "ConsoleLog (tag cfg ''Circuit breaker triggered, waiting before retry...'')
     \<notin> set (fst (startWorker_iteration cfg w))"
    by (simp add: startWorker_iteration_eq checkForPendingJobs_def checkForPendingJobs_try_def
        checkForPendingJobs_catch_eq rpc_def processJob_def io_simps
        split: settled.splits option.splits list.splits)
  from a b c d e show ?thesis by blast
qed

theorem claim_step_catches_everything_witness:
  "checkForPendingJobs_try cfg1 wBreaker =
     ([Rpc ''claim_next_pending_job'' ''w7'', ProcessJob job1 ''w7''],
      Throws (CircuitBreakerError ''open'')) \<and>
   checkForPendingJobs cfg1 wBreaker =
     ([Rpc ''claim_next_pending_job'' ''w7'', ProcessJob job1 ''w7'',
       ConsoleError ''[Worker w7] Error checking for pending jobs:''
         (Some (CircuitBreakerError ''open'')),
       Sleep 15000], Returns ())"
  using claim_step_catches_everything [of cfg1 wBreaker] wBreaker_try
  by (simp add: cfg1_def tag_def)








lemma checkForPendingJobs_idle:
  "noJobClaimed w
     \<Longrightarrow> checkForPendingJobs cfg w = ([Rpc ''claim_next_pending_job'' (id_cfg cfg)], Returns ())"
  by (auto simp: noJobClaimed_def checkForPendingJobs_def checkForPendingJobs_try_def rpc_def
      io_simps split: settled.splits)

lemma startWorker_iteration_idle:
  "noJobClaimed w
     \<Longrightarrow> startWorker_iteration cfg w =
         ([Rpc ''claim_next_pending_job'' (id_cfg cfg), Sleep (pollingInterval cfg)], Returns ())"
  by (simp add: startWorker_iteration_eq checkForPendingJobs_idle)

lemma concat_map_const: "concat (map (\<lambda>j. xs) ns) = concat (replicate (length ns) xs)"
  by (induction ns) simp_all

text \<open>
  Claim C7. Every iteration ends with a sleep of \<open>pollingInterval\<close> and returns. When the
  claim returns no job, the iteration is the claim call and that sleep only, with no
  error logged; and for every number of consecutive iterations on an empty queue the loop
  performs exactly that pair once per iteration and is still running.
\<close>

theorem polling_sleep_every_iteration:
  "startWorker_iteration cfg w =
     (fst (checkForPendingJobs cfg w) @ [Sleep (pollingInterval cfg)], Returns ()) \<and>
   (noJobClaimed w \<longrightarrow>
      startWorker_iteration cfg w =
        ([Rpc ''claim_next_pending_job'' (id_cfg cfg), Sleep (pollingInterval cfg)],
         Returns ())) \<and>
   ((\<forall>i. noJobClaimed (ws i)) \<longrightarrow>
      whileTrue (\<lambda>i. startWorker_iteration cfg (ws i)) 0 n =
        (concat (replicate n
           [Rpc ''claim_next_pending_job'' (id_cfg cfg), Sleep (pollingInterval cfg)]),
         None))"
proof -
  have c: "whileTrue (\<lambda>i. startWorker_iteration cfg (ws i)) 0 n =
        (concat (replicate n
           [Rpc ''claim_next_pending_job'' (id_cfg cfg), Sleep (pollingInterval cfg)]),
         None)" if "\<forall>i. noJobClaimed (ws i)"
  proof -
    have "\<And>j. fst (startWorker_iteration cfg (ws j)) =
        [Rpc ''claim_next_pending_job'' (id_cfg cfg), Sleep (pollingInterval cfg)]"
      using that by (simp add: startWorker_iteration_idle)
    then show ?thesis
      by (simp add: startWorker_loop_running concat_map_const)
  qed
  have a: "startWorker_iteration cfg w =
     (fst (checkForPendingJobs cfg w) @ [Sleep (pollingInterval cfg)], Returns ())"
    by (rule startWorker_iteration_eq)
  have b: "noJobClaimed w \<longrightarrow>
      startWorker_iteration cfg w =
        ([Rpc ''claim_next_pending_job'' (id_cfg cfg), Sleep (pollingInterval cfg)],
         Returns ())"
    by (simp add: startWorker_iteration_idle)
  from a b c show ?thesis by blast
qed

theorem polling_sleep_every_iteration_witness:
  "noJobClaimed wEmpty \<and>
   startWorker_iteration cfg1 wEmpty =
     ([Rpc ''claim_next_pending_job'' ''w7'', Sleep 1000], Returns ()) \<and>
   whileTrue (\<lambda>i. startWorker_iteration cfg1 wEmpty) 0 3 =
     ([Rpc ''claim_next_pending_job'' ''w7'', Sleep 1000,
       Rpc ''claim_next_pending_job'' ''w7'', Sleep 1000,
       Rpc ''claim_next_pending_job'' ''w7'', Sleep 1000], None)"
proof -
  have h: "noJobClaimed wEmpty"
    by (simp add: noJobClaimed_def wEmpty_def)
  have r: "replicate 3 x = [x, x, x]" for x :: "effect list"
    by (simp add: numeral_3_eq_3)
  from polling_sleep_every_iteration [of cfg1 wEmpty "\<lambda>i. wEmpty" 3] h
  have b: "startWorker_iteration cfg1 wEmpty =
        ([Rpc ''claim_next_pending_job'' (id_cfg cfg1), Sleep (pollingInterval cfg1)],
         Returns ())"
    and c: "whileTrue (\<lambda>i. startWorker_iteration cfg1 wEmpty) 0 3 =
        (concat (replicate 3
           [Rpc ''claim_next_pending_job'' (id_cfg cfg1), Sleep (pollingInterval cfg1)]),
         None)"
    by blast+
  from b c h show ?thesis
    by (simp add: cfg1_def r)
qed

lemma checkForPendingJobs_one_claim:
  "length (filter isClaim (fst (checkForPendingJobs cfg w))) = 1"
  by (simp add: checkForPendingJobs_def checkForPendingJobs_try_def
        checkForPendingJobs_catch_eq rpc_def processJob_def io_simps
        split: settled.splits option.splits list.splits)

lemma checkForPendingJobs_no_Exit:
  "Exit c \<notin> set (fst (checkForPendingJobs cfg w))"
  by (simp add: checkForPendingJobs_def checkForPendingJobs_try_def
        checkForPendingJobs_catch_eq rpc_def processJob_def io_simps
        split: settled.splits option.splits list.splits)

lemma checkForPendingJobs_no_ClearInterval:
  "ClearInterval \<notin> set (fst (checkForPendingJobs cfg w))"
  by (simp add: checkForPendingJobs_def checkForPendingJobs_try_def
        checkForPendingJobs_catch_eq rpc_def processJob_def io_simps
        split: settled.splits option.splits list.splits)

lemma loop_claims:
  "length (filter isClaim
     (concat (map (\<lambda>j. fst (startWorker_iteration cfg (ws j))) ns))) = length ns"
  by (induction ns) (simp_all add: startWorker_iteration_eq checkForPendingJobs_one_claim)

text \<open>
  Claim C9. The loop has no end of its own: whatever the store and the job processor
  answer in each iteration, after any number of iterations the loop is still running,
  it has made one claim call per iteration, and \<open>startWorker\<close> has neither exited the
  process nor cleared its timer.
\<close>

theorem loop_never_ends:
  "snd (whileTrue (\<lambda>i. startWorker_iteration cfg (ws i)) 0 fuel) = None \<and>
   length (filter isClaim (fst (whileTrue (\<lambda>i. startWorker_iteration cfg (ws i)) 0 fuel)))
     = fuel \<and>
   snd (snd (startWorker cfg ws fuel ls)) = None \<and>
   (\<forall>c. Exit c \<notin> set (fst (snd (startWorker cfg ws fuel ls)))) \<and>
   ClearInterval \<notin> set (fst (snd (startWorker cfg ws fuel ls)))"
proof -
  have a: "length (filter isClaim (fst (whileTrue (\<lambda>i. startWorker_iteration cfg (ws i)) 0 fuel)))
     = fuel"
    using loop_claims [of cfg ws "[0 ..< fuel]"] by (simp add: startWorker_loop_running)
  have b: "\<forall>c. Exit c \<notin> set (fst (snd (startWorker cfg ws fuel ls)))"
    by (simp add: startWorker_eq startWorker_iteration_eq checkForPendingJobs_no_Exit)
  have d: "ClearInterval \<notin> set (fst (snd (startWorker cfg ws fuel ls)))"
    by (simp add: startWorker_eq startWorker_iteration_eq checkForPendingJobs_no_ClearInterval)
  from a b d show ?thesis
    by (simp add: startWorker_loop_running startWorker_eq)
qed

subsection \<open>The wrapper\<close>

lemma safeSupabaseCall_Returns:
  "safeSupabaseCall cfg (t, Returns x) = (t, Returns x)"
  by (simp add: safeSupabaseCall_def io_simps)

lemma safeSupabaseCall_Throws:
  "safeSupabaseCall cfg (t, Throws e) =
     (if instanceofCircuitBreakerError e then (t, Throws e)
      else if instanceofSupabaseError e then
        (t @ [ConsoleError (tag cfg ''Supabase error:'') (Some e)], Throws e)
      else
        (t @ [ConsoleError (tag cfg ''Unexpected error:'') (Some e)],
         Throws (WorkerError ''Unexpected error during Supabase operation'' ''UNKNOWN_ERROR'')))"
  by (simp add: safeSupabaseCall_def io_simps)

text \<open>
  Claim C4, as amended. \<open>safeSupabaseCall\<close> returns the result of a callback that does not
  throw, with the callback's effects and nothing more. A \<open>CircuitBreakerError\<close> is thrown
  again unchanged, a \<open>SupabaseError\<close> is logged and thrown again unchanged, and every
  other thrown value (a \<open>JobProcessingError\<close>, a \<open>StalledJobError\<close> and a plain
  \<open>WorkerError\<close> included) is logged and replaced by a new \<open>WorkerError\<close> with the code
  \<open>UNKNOWN_ERROR\<close>.
\<close>

theorem wrapper_behaviour:
  "(\<forall>t x. callback = (t, Returns x) \<longrightarrow> safeSupabaseCall cfg callback = (t, Returns x)) \<and>
   (\<forall>t e. callback = (t, Throws e) \<and> instanceofCircuitBreakerError e \<longrightarrow>
      safeSupabaseCall cfg callback = (t, Throws e)) \<and>
   (\<forall>t e. callback = (t, Throws e) \<and> instanceofSupabaseError e \<longrightarrow>
      safeSupabaseCall cfg callback =
        (t @ [ConsoleError (tag cfg ''Supabase error:'') (Some e)], Throws e)) \<and>
   (\<forall>t e. callback = (t, Throws e) \<and> \<not> instanceofCircuitBreakerError e
        \<and> \<not> instanceofSupabaseError e \<longrightarrow>
      safeSupabaseCall cfg callback =
        (t @ [ConsoleError (tag cfg ''Unexpected error:'') (Some e)],
         Throws (WorkerError ''Unexpected error during Supabase operation'' ''UNKNOWN_ERROR'')))"
proof -
  have "instanceofSupabaseError e \<Longrightarrow> \<not> instanceofCircuitBreakerError e" for e
    by (cases e) simp_all
  then show ?thesis
    by (auto simp: safeSupabaseCall_Returns safeSupabaseCall_Throws)
qed

theorem wrapper_behaviour_witness:
  "safeSupabaseCall cfg1 (ret (5 :: nat)) = ([], Returns 5) \<and>
   instanceofCircuitBreakerError (CircuitBreakerError ''open'') \<and>
   safeSupabaseCall cfg1 (throw (CircuitBreakerError ''open'') :: nat io)
     = ([], Throws (CircuitBreakerError ''open'')) \<and>
   instanceofSupabaseError (SupabaseError ''Failed to claim next job'' ''timeout'') \<and>
   snd (safeSupabaseCall cfg1
          (throw (SupabaseError ''Failed to claim next job'' ''timeout'') :: nat io))
     = Throws (SupabaseError ''Failed to claim next job'' ''timeout'') \<and>
   \<not> instanceofCircuitBreakerError (StalledJobError ''late'' ''j1'') \<and>
   \<not> instanceofSupabaseError (StalledJobError ''late'' ''j1'') \<and>
   snd (safeSupabaseCall cfg1 (throw (StalledJobError ''late'' ''j1'') :: nat io))
     = Throws (WorkerError ''Unexpected error during Supabase operation'' ''UNKNOWN_ERROR'')"
proof -
  have a: "safeSupabaseCall cfg1 (ret (5 :: nat)) = ([], Returns 5)"
    using wrapper_behaviour [of "ret (5 :: nat)" cfg1] by (simp add: ret_def)
  have b: "safeSupabaseCall cfg1 (throw (CircuitBreakerError ''open'') :: nat io)
     = ([], Throws (CircuitBreakerError ''open''))"
    using wrapper_behaviour [of "throw (CircuitBreakerError ''open'') :: nat io" cfg1]
    by (simp add: throw_def)
  have c: "snd (safeSupabaseCall cfg1
          (throw (SupabaseError ''Failed to claim next job'' ''timeout'') :: nat io))
     = Throws (SupabaseError ''Failed to claim next job'' ''timeout'')"
    using wrapper_behaviour
      [of "throw (SupabaseError ''Failed to claim next job'' ''timeout'') :: nat io" cfg1]
    by (simp add: throw_def)
  have d: "snd (safeSupabaseCall cfg1 (throw (StalledJobError ''late'' ''j1'') :: nat io))
     = Throws (WorkerError ''Unexpected error during Supabase operation'' ''UNKNOWN_ERROR'')"
    using wrapper_behaviour [of "throw (StalledJobError ''late'' ''j1'') :: nat io" cfg1]
    by (simp add: throw_def)
  from a b c d show ?thesis by simp
qed

text \<open>
  Claim C4 as stated fails: a \<open>JobProcessingError\<close> is one of the worker's error classes,
  and the wrapper does not throw it again; it throws a \<open>WorkerError\<close> with the code
  \<open>UNKNOWN_ERROR\<close> in its place.
\<close>

theorem wrapper_rewraps_closed_kind_counterexample:
  "instanceofWorkerError (JobProcessingError ''boom'' ''j1'') \<and>
   safeSupabaseCall cfg1 (throw (JobProcessingError ''boom'' ''j1'')) =
     ([ConsoleError ''[Worker w7] Unexpected error:'' (Some (JobProcessingError ''boom'' ''j1''))],
      Throws (WorkerError ''Unexpected error during Supabase operation'' ''UNKNOWN_ERROR'')) \<and>
   snd (safeSupabaseCall cfg1 (throw (JobProcessingError ''boom'' ''j1'')))
     \<noteq> Throws (JobProcessingError ''boom'' ''j1'')"
  by (simp add: throw_def safeSupabaseCall_Throws tag_def cfg1_def)

subsection \<open>The stalled-job scan\<close>

lemma take_one_Cons: "take (Suc 0) xs = y # ys \<Longrightarrow> ys = [] \<and> (\<exists>zs. xs = y # zs)"
  by (cases xs) auto

lemma runSelect_first:
  assumes sel: "runSelect rs q = job # rest" and lim: "limitRows q = 1"
  shows "rest = []"
    and "job \<in> set rs"
    and "status job = eqStatus q"
    and "updated_at job < ltUpdatedAt q"
    and "\<And>k. k \<in> set rs \<Longrightarrow> status k = eqStatus q \<Longrightarrow> updated_at k < ltUpdatedAt q
           \<Longrightarrow> created_at job \<le> created_at k"
proof -
  define P where "P = (\<lambda>j :: ImportJob. status j = eqStatus q \<and> updated_at j < ltUpdatedAt q)"
  define xs where "xs = sort_key created_at (filter P rs)"
  from sel lim have t: "take (Suc 0) xs = job # rest"
    by (simp add: runSelect_def xs_def P_def)
  from take_one_Cons [OF t] obtain zs where r: "rest = []" and x: "xs = job # zs"
    by blast
  have s: "set xs = {j \<in> set rs. P j}"
    by (simp add: xs_def)
  have "job \<in> set xs"
    by (simp add: x)
  with s have m: "job \<in> set rs" and p: "P job"
    by simp_all
  have "sorted (map created_at xs)"
    by (simp add: xs_def sorted_sort_key)
  with x have least: "\<forall>k \<in> set xs. created_at job \<le> created_at k"
    by auto
  show "rest = []" by (rule r)
  show "job \<in> set rs" by (rule m)
  show "status job = eqStatus q" using p by (simp add: P_def)
  show "updated_at job < ltUpdatedAt q" using p by (simp add: P_def)
  show "created_at job \<le> created_at k"
    if "k \<in> set rs" "status k = eqStatus q" "updated_at k < ltUpdatedAt q" for k
  proof -
    from that have "k \<in> set xs" by (simp add: s P_def)
    with least show ?thesis by blast
  qed
qed

lemma runSelect_found:
  assumes k: "k \<in> set rs" "status k = eqStatus q" "updated_at k < ltUpdatedAt q"
    and lim: "limitRows q = 1"
  shows "\<exists>job. runSelect rs q = [job]"
proof -
  define xs where
    "xs = sort_key created_at
            (filter (\<lambda>j. status j = eqStatus q \<and> updated_at j < ltUpdatedAt q) rs)"
  from k have "k \<in> set xs"
    by (simp add: xs_def)
  then obtain y ys where "xs = y # ys"
    by (cases xs) auto
  then have "take (Suc 0) xs = [y]"
    by simp
  with lim show ?thesis
    by (auto simp: runSelect_def xs_def)
qed

lemma recoverStalledJobs_ProcessJob_iff:
  "ProcessJob job wid \<in> set (fst (recoverStalledJobs cfg now w)) \<longleftrightarrow>
     validTime (now - stalledJobTimeout cfg) \<and> selectFailure w = None \<and> wid = id_cfg cfg \<and>
     (\<exists>rest. runSelect (rows w) (stalledQuery cfg now) = job # rest)"
  by (auto simp: recoverStalledJobs_def recoverStalledJobs_try_def recoverStalledJobs_catch_eq
        select_def toISOString_def processJob_def io_simps stalledQuery_def
      split: list.splits option.splits storeFailure.splits settled.splits)

lemma recoverStalledJobs_at_most_one:
  "length (filter isProcessJob (fst (recoverStalledJobs cfg now w))) \<le> 1"
  by (simp add: recoverStalledJobs_def recoverStalledJobs_try_def recoverStalledJobs_catch_eq
        select_def toISOString_def processJob_def io_simps
      split: list.splits option.splits storeFailure.splits settled.splits)

lemma recoverStalledJobs_no_Rpc:
  "Rpc fn a \<notin> set (fst (recoverStalledJobs cfg now w))"
  by (simp add: recoverStalledJobs_def recoverStalledJobs_try_def recoverStalledJobs_catch_eq
        select_def toISOString_def processJob_def io_simps
      split: list.splits option.splits storeFailure.splits settled.splits)

text \<open>
  Claim C2. A job handed to \<open>processJob\<close> by a scan is a row with status \<open>processing\<close>
  whose \<open>updated_at\<close> is strictly before \<open>now - stalledJobTimeout\<close>, no such row was created
  earlier, and it is handed over with this worker's id. When the store answers the query
  and such a row exists, one is handed over; a scan hands over at most one job and makes
  no \<open>rpc\<close> call. A job whose \<open>updated_at\<close> is exactly \<open>now - stalledJobTimeout\<close> is never
  handed over; one millisecond older, it is (shown for a store that holds this row only).
\<close>

theorem recovery_scan_selection:
  "(\<forall>job wid. ProcessJob job wid \<in> set (fst (recoverStalledJobs cfg now w)) \<longrightarrow>
      wid = id_cfg cfg \<and> job \<in> set (rows w) \<and> status job = Processing \<and>
      updated_at job < now - stalledJobTimeout cfg \<and>
      (\<forall>k \<in> set (rows w).
         status k = Processing \<and> updated_at k < now - stalledJobTimeout cfg
           \<longrightarrow> created_at job \<le> created_at k)) \<and>
   (validTime (now - stalledJobTimeout cfg) \<and> selectFailure w = None \<and>
    (\<exists>k \<in> set (rows w). status k = Processing \<and> updated_at k < now - stalledJobTimeout cfg)
      \<longrightarrow> (\<exists>job. ProcessJob job (id_cfg cfg) \<in> set (fst (recoverStalledJobs cfg now w)))) \<and>
   length (filter isProcessJob (fst (recoverStalledJobs cfg now w))) \<le> 1 \<and>
   (\<forall>fn a. Rpc fn a \<notin> set (fst (recoverStalledJobs cfg now w))) \<and>
   (\<forall>job wid. updated_at job = now - stalledJobTimeout cfg
      \<longrightarrow> ProcessJob job wid \<notin> set (fst (recoverStalledJobs cfg now w))) \<and>
   (\<forall>job. validTime (now - stalledJobTimeout cfg) \<and> selectFailure w = None \<and>
      rows w = [job] \<and> status job = Processing \<and>
      updated_at job = now - stalledJobTimeout cfg - 1
      \<longrightarrow> ProcessJob job (id_cfg cfg) \<in> set (fst (recoverStalledJobs cfg now w)))"
proof -
  let ?q = "stalledQuery cfg now"
  have q: "eqStatus ?q = Processing" "ltUpdatedAt ?q = now - stalledJobTimeout cfg"
    "limitRows ?q = 1"
    by (simp_all add: stalledQuery_def)
  have sound: "wid = id_cfg cfg \<and> job \<in> set (rows w) \<and> status job = Processing \<and>
      updated_at job < now - stalledJobTimeout cfg \<and>
      (\<forall>k \<in> set (rows w).
         status k = Processing \<and> updated_at k < now - stalledJobTimeout cfg
           \<longrightarrow> created_at job \<le> created_at k)"
    if "ProcessJob job wid \<in> set (fst (recoverStalledJobs cfg now w))" for job wid
  proof -
    from that obtain rest where wid: "wid = id_cfg cfg"
      and sel: "runSelect (rows w) ?q = job # rest"
      by (auto simp: recoverStalledJobs_ProcessJob_iff)
    from runSelect_first [OF sel q(3)] wid show ?thesis
      by (simp add: q)
  qed
  have found: "\<exists>job. ProcessJob job (id_cfg cfg) \<in> set (fst (recoverStalledJobs cfg now w))"
    if v: "validTime (now - stalledJobTimeout cfg)" and f: "selectFailure w = None"
      and k: "k \<in> set (rows w)" "status k = Processing"
        "updated_at k < now - stalledJobTimeout cfg" for k
  proof -
    from runSelect_found [of k "rows w" ?q] k obtain job where "runSelect (rows w) ?q = [job]"
      by (auto simp: q)
    with v f have "ProcessJob job (id_cfg cfg) \<in> set (fst (recoverStalledJobs cfg now w))"
      by (simp add: recoverStalledJobs_ProcessJob_iff)
    then show ?thesis ..
  qed
  have boundary: "ProcessJob job wid \<notin> set (fst (recoverStalledJobs cfg now w))"
    if "updated_at job = now - stalledJobTimeout cfg" for job wid
    using sound [of job wid] that by auto
  have older: "ProcessJob job (id_cfg cfg) \<in> set (fst (recoverStalledJobs cfg now w))"
    if v: "validTime (now - stalledJobTimeout cfg)" and f: "selectFailure w = None"
      and r: "rows w = [job]" and s: "status job = Processing"
      and u: "updated_at job = now - stalledJobTimeout cfg - 1" for job
  proof -
    from found [OF v f, of job] r s u obtain j
      where j: "ProcessJob j (id_cfg cfg) \<in> set (fst (recoverStalledJobs cfg now w))"
      by auto
    from sound [OF j] r have "j = job"
      by simp
    with j show ?thesis by simp
  qed
  from sound found boundary older recoverStalledJobs_at_most_one [of cfg now w]
    recoverStalledJobs_no_Rpc [of _ _ cfg now w]
  show ?thesis
    by blast
qed

lemma wScan_scan:
  "recoverStalledJobs cfg1 1000000 wScan =
     ([Select \<lparr> fromTable = ''import_jobs'', eqStatus = Processing,
                ltUpdatedAt = 940000, limitRows = 1 \<rparr>,
       ConsoleLog ''[Worker w7] Recovering stalled job: js2'',
       ProcessJob jobStale2 ''w7''], Returns ())"
  by (simp add: recoverStalledJobs_def recoverStalledJobs_try_def select_def toISOString_def
      validTime_def runSelect_def processJob_def io_simps tag_def cfg1_def wScan_def
      jobBoundary_def jobStale1_def jobStale2_def jobPending_def)

theorem recovery_scan_selection_witness:
  "validTime (1000000 - stalledJobTimeout cfg1) \<and> selectFailure wScan = None \<and>
   jobStale1 \<in> set (rows wScan) \<and> status jobStale1 = Processing \<and>
   updated_at jobStale1 = 1000000 - stalledJobTimeout cfg1 - 1 \<and>
   (\<exists>job. ProcessJob job (id_cfg cfg1) \<in> set (fst (recoverStalledJobs cfg1 1000000 wScan))) \<and>
   updated_at jobBoundary = 1000000 - stalledJobTimeout cfg1 \<and>
   ProcessJob jobBoundary ''w7'' \<notin> set (fst (recoverStalledJobs cfg1 1000000 wScan)) \<and>
   recoverStalledJobs cfg1 1000000 wScan =
     ([Select \<lparr> fromTable = ''import_jobs'', eqStatus = Processing,
                ltUpdatedAt = 940000, limitRows = 1 \<rparr>,
       ConsoleLog ''[Worker w7] Recovering stalled job: js2'',
       ProcessJob jobStale2 ''w7''], Returns ())"
proof -
  have h1: "validTime (1000000 - stalledJobTimeout cfg1)"
    by (simp add: validTime_def cfg1_def)
  have h2: "selectFailure wScan = None"
    by (simp add: wScan_def)
  have h3: "jobStale1 \<in> set (rows wScan)"
    by (simp add: wScan_def)
  have h4: "status jobStale1 = Processing"
    "updated_at jobStale1 = 1000000 - stalledJobTimeout cfg1 - 1"
    "updated_at jobStale1 < 1000000 - stalledJobTimeout cfg1"
    by (simp_all add: jobStale1_def cfg1_def)
  have h5: "updated_at jobBoundary = 1000000 - stalledJobTimeout cfg1"
    by (simp add: jobBoundary_def cfg1_def)
  note t = recovery_scan_selection [of cfg1 1000000 wScan]
  from t h1 h2 h3 h4
  have a: "\<exists>job. ProcessJob job (id_cfg cfg1) \<in> set (fst (recoverStalledJobs cfg1 1000000 wScan))"
    by blast
  from t h5
  have b: "ProcessJob jobBoundary ''w7'' \<notin> set (fst (recoverStalledJobs cfg1 1000000 wScan))"
    by blast
  from a b h1 h2 h3 h4 h5 wScan_scan show ?thesis
    by blast
qed

lemma recoverStalledJobs_try_not_Exits: "snd (recoverStalledJobs_try cfg now w) \<noteq> Exits c"
  by (simp add: recoverStalledJobs_try_def select_def toISOString_def processJob_def io_simps
      split: list.splits option.splits storeFailure.splits settled.splits)

lemma recoverStalledJobs_Throws:
  "recoverStalledJobs_try cfg now w = (t, Throws e)
     \<Longrightarrow> recoverStalledJobs cfg now w =
         (t @ [ConsoleError (tag cfg ''Error recovering stalled jobs:'') (Some e),
               Sleep (retryDelay cfg)], Returns ())"
  by (simp add: recoverStalledJobs_def io_simps recoverStalledJobs_catch_eq)

lemma recoverStalledJobs_snd: "snd (recoverStalledJobs cfg now w) = Returns ()"
proof (cases "recoverStalledJobs_try cfg now w")
  case (Pair t r)
  show ?thesis
  proof (cases r)
    case (Returns u)
    with Pair show ?thesis by (simp add: recoverStalledJobs_def io_simps)
  next
    case (Throws e)
    with Pair show ?thesis by (simp add: recoverStalledJobs_Throws)
  next
    case (Exits c)
    with Pair recoverStalledJobs_try_not_Exits [of cfg now w c] show ?thesis by simp
  qed
qed

lemma recoverStalledJobs_no_Exit: "Exit c \<notin> set (fst (recoverStalledJobs cfg now w))"
  by (simp add: recoverStalledJobs_def recoverStalledJobs_try_def recoverStalledJobs_catch_eq
        select_def toISOString_def processJob_def io_simps
      split: list.splits option.splits storeFailure.splits settled.splits)

lemma recoverStalledJobs_no_ClearInterval:
  "ClearInterval \<notin> set (fst (recoverStalledJobs cfg now w))"
  by (simp add: recoverStalledJobs_def recoverStalledJobs_try_def recoverStalledJobs_catch_eq
        select_def toISOString_def processJob_def io_simps
      split: list.splits option.splits storeFailure.splits settled.splits)

text \<open>
  Claim C8. \<open>recoverStalledJobs\<close> always returns: a failure of the scan is caught by its
  own \<open>catch\<close>, logged, and followed by a sleep of \<open>retryDelay\<close>. Hence the \<open>catch\<close> of the
  timer's callback never runs, the callback neither exits the process nor clears the
  timer, and the only timer \<open>startWorker\<close> sets has the period \<open>stalledJobTimeout\<close>.
\<close>

theorem recovery_failure_contained:
  "snd (recoverStalledJobs cfg now w) = Returns () \<and>
   (\<forall>t e. recoverStalledJobs_try cfg now w = (t, Throws e) \<longrightarrow>
      recoverStalledJobs cfg now w =
        (t @ [ConsoleError (tag cfg ''Error recovering stalled jobs:'') (Some e),
              Sleep (retryDelay cfg)], Returns ())) \<and>
   stalledJobsInterval_callback cfg now w = recoverStalledJobs cfg now w \<and>
   (\<forall>c. Exit c \<notin> set (fst (stalledJobsInterval_callback cfg now w))) \<and>
   ClearInterval \<notin> set (fst (stalledJobsInterval_callback cfg now w)) \<and>
   filter isSetInterval (fst (snd (startWorker cfg ws fuel ls)))
     = [SetInterval (stalledJobTimeout cfg)]"
proof -
  have a: "stalledJobsInterval_callback cfg now w = recoverStalledJobs cfg now w"
    unfolding stalledJobsInterval_callback_def
    by (rule tryCatch_no_throw [OF recoverStalledJobs_snd])
  have no: "\<not> isSetInterval ev" if "ev \<in> set (fst (checkForPendingJobs cfg v))" for ev v
    using that
    by (auto simp: checkForPendingJobs_def checkForPendingJobs_try_def
        checkForPendingJobs_catch_eq rpc_def processJob_def io_simps
        split: settled.splits option.splits list.splits)
  have "filter isSetInterval
      (concat (map (\<lambda>j. fst (startWorker_iteration cfg (ws j))) ns)) = []" for ns
    by (induction ns) (auto simp: startWorker_iteration_eq filter_empty_conv dest: no)
  then have b: "filter isSetInterval (fst (snd (startWorker cfg ws fuel ls)))
     = [SetInterval (stalledJobTimeout cfg)]"
    by (simp add: startWorker_eq)
  from a b show ?thesis
    by (simp add: recoverStalledJobs_snd recoverStalledJobs_Throws recoverStalledJobs_no_Exit
        recoverStalledJobs_no_ClearInterval)
qed

theorem recovery_failure_contained_witness:
  "recoverStalledJobs_try cfg1 1000000 wNetwork =
     ([Select \<lparr> fromTable = ''import_jobs'', eqStatus = Processing,
                ltUpdatedAt = 940000, limitRows = 1 \<rparr>], Throws (OtherThrown ''fetch failed'')) \<and>
   recoverStalledJobs cfg1 1000000 wNetwork =
     ([Select \<lparr> fromTable = ''import_jobs'', eqStatus = Processing,
                ltUpdatedAt = 940000, limitRows = 1 \<rparr>,
       ConsoleError ''[Worker w7] Error recovering stalled jobs:''
         (Some (OtherThrown ''fetch failed'')),
       Sleep 15000], Returns ())"
proof -
  have h: "recoverStalledJobs_try cfg1 1000000 wNetwork =
     ([Select \<lparr> fromTable = ''import_jobs'', eqStatus = Processing,
                ltUpdatedAt = 940000, limitRows = 1 \<rparr>], Throws (OtherThrown ''fetch failed''))"
    by (simp add: recoverStalledJobs_try_def select_def toISOString_def validTime_def io_simps
        cfg1_def wNetwork_def)
  from recovery_failure_contained [of cfg1 1000000 wNetwork] h
  have "recoverStalledJobs cfg1 1000000 wNetwork =
        ([Select \<lparr> fromTable = ''import_jobs'', eqStatus = Processing,
                   ltUpdatedAt = 940000, limitRows = 1 \<rparr>]
         @ [ConsoleError (tag cfg1 ''Error recovering stalled jobs:'')
              (Some (OtherThrown ''fetch failed'')),
            Sleep (retryDelay cfg1)], Returns ())"
    by blast
  with h show ?thesis
    by (simp add: cfg1_def tag_def)
qed

subsection \<open>Store calls and the wrapper\<close>

lemma checkForPendingJobs_rejected:
  "rpcResult w = Rejects e
     \<Longrightarrow> checkForPendingJobs cfg w =
         ([Rpc ''claim_next_pending_job'' (id_cfg cfg),
           ConsoleError (tag cfg ''Error checking for pending jobs:'') (Some e),
           Sleep (retryDelay cfg)], Returns ())"
  by (simp add: checkForPendingJobs_def checkForPendingJobs_try_def
        checkForPendingJobs_catch_eq rpc_def io_simps)

lemma checkForPendingJobs_reported:
  "rpcResult w = Resolves r \<Longrightarrow> error r = Some x
     \<Longrightarrow> checkForPendingJobs cfg w =
         ([Rpc ''claim_next_pending_job'' (id_cfg cfg),
           ConsoleError (tag cfg ''Error checking for pending jobs:'')
             (Some (SupabaseError ''Failed to claim next job'' x)),
           Sleep (retryDelay cfg)], Returns ())"
  by (simp add: checkForPendingJobs_def checkForPendingJobs_try_def
        checkForPendingJobs_catch_eq rpc_def io_simps)








subsection \<open>Signals and process-level errors\<close>

lemma registered_listeners:
  "fst (startWorker cfg ws fuel (topLevelListeners cfg [])) =
     process_on SIGINT (\<lambda>a. perform ClearInterval)
       (process_on SIGTERM (\<lambda>a. perform ClearInterval) (topLevelListeners cfg []))"
  by (simp add: startWorker_eq)

text \<open>
  Claim C6. Once the worker is started, the listeners are those of the top level followed
  by those of \<open>startWorker\<close>. A termination signal runs the top-level listener first: it
  logs and exits with code 0, so the listener that clears the timer, registered after it,
  does not run, and the timer set by \<open>startWorker\<close> is not cleared before the exit. An
  uncaught exception and an unhandled rejection log the value and exit with code 1.
\<close>

theorem signal_exit_skips_clearInterval:
  "process_emit (fst (startWorker cfg ws fuel (topLevelListeners cfg []))) SIGTERM a =
     ([ConsoleLog (tag cfg ''Received SIGTERM, shutting down gracefully...''), Exit 0], Exits 0) \<and>
   process_emit (fst (startWorker cfg ws fuel (topLevelListeners cfg []))) SIGINT a =
     ([ConsoleLog (tag cfg ''Received SIGINT, shutting down gracefully...''), Exit 0], Exits 0) \<and>
   SetInterval (stalledJobTimeout cfg)
     \<in> set (fst (snd (startWorker cfg ws fuel (topLevelListeners cfg [])))) \<and>
   ClearInterval \<notin> set (fst (snd (startWorker cfg ws fuel (topLevelListeners cfg [])))) \<and>
   process_emit (fst (startWorker cfg ws fuel (topLevelListeners cfg []))) UncaughtException a =
     ([ConsoleError (tag cfg ''Uncaught exception:'') a, Exit 1], Exits 1) \<and>
   process_emit (fst (startWorker cfg ws fuel (topLevelListeners cfg []))) UnhandledRejection a =
     ([ConsoleError (tag cfg ''Unhandled rejection:'') a, Exit 1], Exits 1)"
  by (simp add: registered_listeners topLevelListeners_def process_on_def process_emit_def
      io_simps startWorker_eq startWorker_iteration_eq checkForPendingJobs_no_ClearInterval)

subsection \<open>Configuration and the start of the module\<close>

lemmas parseInt_eval = parseInt_def isWhiteSpace_def radixDigit_def digitValue_def mathInt_def
  toNumber_def roundToDouble_def

lemma shiftOf_small: "n < 9007199254740992 \<Longrightarrow> shiftOf n = 0"
  by (subst shiftOf.simps) simp

lemma parseInt_Nil: "parseInt [] = NaN"
  by (simp add: parseInt_def)

lemma orString_Some_Nil: "orString (Some s) [] = s"
  by (simp add: orString_def)

lemma orNumber_default:
  "missingOrFalsy v \<Longrightarrow> orNumber (parseInt (orString v [])) d = Num d"
  by (cases v) (auto simp: missingOrFalsy_def orNumber_def orString_def parseInt_Nil)

lemma orNumber_parsed:
  "v = Some s \<Longrightarrow> parseInt s = Num n \<Longrightarrow> n \<noteq> 0
     \<Longrightarrow> orNumber (parseInt (orString v [])) d = Num n"
  by (simp add: orNumber_def orString_Some_Nil)

lemma finite_orNumber:
  "finite_number (orNumber v d) = None \<longleftrightarrow> isInfinite v"
  by (cases v) (simp_all add: finite_number_def orNumber_def isInfinite_def)

lemma finite_orNumber_NoneD: "finite_number (orNumber v d) = None \<Longrightarrow> isInfinite v"
  by (simp add: finite_orNumber)

lemma finite_orNumber_SomeD: "finite_number (orNumber v d) = Some n \<Longrightarrow> \<not> isInfinite v"
  using finite_orNumber [of v d] by auto

lemma parseInt_zero: "parseInt ''0'' = Num 0"
  by (simp add: parseInt_eval shiftOf_small)

lemma parseInt_15abc: "parseInt ''15abc'' = Num 15"
  by (simp add: parseInt_eval shiftOf_small)

lemma parseInt_abc: "parseInt ''abc'' = NaN"
  by (simp add: parseInt_eval)

lemma shiftOf_2_53_1: "shiftOf 9007199254740993 = 1"
  by (subst shiftOf.simps) (simp add: shiftOf_small)

lemma parseInt_rounds: "parseInt ''9007199254740993'' = Num 9007199254740992"
  by (simp add: parseInt_eval shiftOf_2_53_1)

lemma shiftOf_2_53_3: "shiftOf 9007199254740995 = 1"
  by (subst shiftOf.simps) (simp add: shiftOf_small)

lemma parseInt_rounds_up: "parseInt ''9007199254740995'' = Num 9007199254740996"
  by (simp add: parseInt_eval shiftOf_2_53_3)

lemma DEFAULT_CONFIG_fields:
  "id_cfg DEFAULT_CONFIG = ''worker1''"
  "pollingInterval DEFAULT_CONFIG = 15000"
  "stalledJobTimeout DEFAULT_CONFIG = 60000"
  "circuitBreakerResetTimeout DEFAULT_CONFIG = 15000"
  "retryDelay DEFAULT_CONFIG = 15000"
  by (simp_all add: DEFAULT_CONFIG_def)

lemma finite_number_Some: "finite_number v = Some n \<longleftrightarrow> v = Num n"
  by (cases v) (simp_all add: finite_number_def)

lemma WORKER_CONFIG_SomeD:
  assumes "WORKER_CONFIG env = Some cfg"
  shows "orNumber (parseInt (orString (env ''POLLING_INTERVAL'') [])) 15000
           = Num (pollingInterval cfg)"
    and "orNumber (parseInt (orString (env ''STALLED_JOB_TIMEOUT'') [])) 60000
           = Num (stalledJobTimeout cfg)"
    and "orNumber (parseInt (orString (env ''CIRCUIT_BREAKER_RESET_TIMEOUT'') [])) 15000
           = Num (circuitBreakerResetTimeout cfg)"
    and "orNumber (parseInt (orString (env ''RETRY_DELAY'') [])) 15000 = Num (retryDelay cfg)"
    and "id_cfg cfg = orString (env ''WORKER_ID'') ''worker1''"
proof -
  from assms obtain p s c r
    where p: "finite_number (orNumber (parseInt (orString (env ''POLLING_INTERVAL'') [])) 15000)
                = Some p"
      and s: "finite_number (orNumber (parseInt (orString (env ''STALLED_JOB_TIMEOUT'') [])) 60000)
                = Some s"
      and c: "finite_number
                (orNumber (parseInt (orString (env ''CIRCUIT_BREAKER_RESET_TIMEOUT'') [])) 15000)
                = Some c"
      and r: "finite_number (orNumber (parseInt (orString (env ''RETRY_DELAY'') [])) 15000)
                = Some r"
      and cfg: "cfg = \<lparr> id_cfg = orString (env ''WORKER_ID'') ''worker1'', pollingInterval = p,
                  stalledJobTimeout = s, circuitBreakerResetTimeout = c, retryDelay = r \<rparr>"
    unfolding WORKER_CONFIG_def DEFAULT_CONFIG_fields
    by (simp split: option.splits)
  from p s c r show
    "orNumber (parseInt (orString (env ''POLLING_INTERVAL'') [])) 15000
           = Num (pollingInterval cfg)"
    "orNumber (parseInt (orString (env ''STALLED_JOB_TIMEOUT'') [])) 60000
           = Num (stalledJobTimeout cfg)"
    "orNumber (parseInt (orString (env ''CIRCUIT_BREAKER_RESET_TIMEOUT'') [])) 15000
           = Num (circuitBreakerResetTimeout cfg)"
    "orNumber (parseInt (orString (env ''RETRY_DELAY'') [])) 15000 = Num (retryDelay cfg)"
    "id_cfg cfg = orString (env ''WORKER_ID'') ''worker1''"
    by (simp_all add: cfg finite_number_Some)
qed

lemma WORKER_CONFIG_None:
  "WORKER_CONFIG env = None \<longleftrightarrow>
     isInfinite (parseInt (orString (env ''POLLING_INTERVAL'') [])) \<or>
     isInfinite (parseInt (orString (env ''STALLED_JOB_TIMEOUT'') [])) \<or>
     isInfinite (parseInt (orString (env ''CIRCUIT_BREAKER_RESET_TIMEOUT'') [])) \<or>
     isInfinite (parseInt (orString (env ''RETRY_DELAY'') []))"
  by (auto simp: WORKER_CONFIG_def split: option.splits
      dest: finite_orNumber_NoneD finite_orNumber_SomeD)

lemma startWorker_claims:
  "length (filter isClaim (fst (snd (startWorker cfg ws fuel ls)))) = fuel"
  using loop_claims [of cfg ws "[0 ..< fuel]"] by (simp add: startWorker_eq)

lemma runModule_started:
  "truthy (env ''NEXT_PUBLIC_SUPABASE_URL'') \<Longrightarrow> truthy (env ''SUPABASE_SERVICE_ROLE_KEY'')
     \<Longrightarrow> createClient (orString (env ''NEXT_PUBLIC_SUPABASE_URL'') [])
           (orString (env ''SUPABASE_SERVICE_ROLE_KEY'') []) = None
     \<Longrightarrow> WORKER_CONFIG env = Some cfg
     \<Longrightarrow> runModule createClient env ws fuel =
           Some (startWorker cfg ws fuel (topLevelListeners cfg []))"
  by (simp add: runModule_def startWorker_eq)

lemma startup_without_credentials:
  "\<not> truthy (env ''NEXT_PUBLIC_SUPABASE_URL'') \<or> \<not> truthy (env ''SUPABASE_SERVICE_ROLE_KEY'')
     \<Longrightarrow> runModule createClient env ws fuel =
         Some ([], [ConsoleError ''Missing environment variables:'' None, Exit 1],
               Some (Exits 1))"
  by (simp add: runModule_def)

lemma startup_createClient_throws:
  "truthy (env ''NEXT_PUBLIC_SUPABASE_URL'') \<Longrightarrow> truthy (env ''SUPABASE_SERVICE_ROLE_KEY'')
     \<Longrightarrow> createClient (orString (env ''NEXT_PUBLIC_SUPABASE_URL'') [])
           (orString (env ''SUPABASE_SERVICE_ROLE_KEY'') []) = Some e
     \<Longrightarrow> runModule createClient env ws fuel =
         Some ([], [ConsoleError ''Uncaught'' (Some e), Exit 1], Some (Exits 1))"
  by (simp add: runModule_def)

text \<open>
  Claim C10. In the configuration the module resolves, each numeric variable has its
  documented default (polling interval 15000, stalled-job timeout 60000, circuit-breaker
  reset timeout 15000, retry delay 15000) whenever it is not set or the integer parsed
  from it is falsy, and the worker id is \<open>worker1\<close> when it is not set or empty; a variable
  whose parse is a non-zero number has that number, which is the double \<open>parseInt\<close>
  returns (above \<open>2 ^ 53\<close> the rounded one). The configuration is one of integer durations
  unless a variable parses to an infinity. The value \<open>0\<close> is falsy, so it falls back to
  the default, and \<open>15abc\<close> parses to 15, so it is accepted. None of this aborts the
  start: with the two mandatory variables set and a client created, the module runs
  \<open>startWorker\<close> with the resolved configuration, and the loop makes its claim calls and
  is still running, whatever the numeric variables hold.
\<close>

theorem config_defaults:
  "(\<forall>cfg. WORKER_CONFIG env = Some cfg \<longrightarrow>
      (missingOrFalsy (env ''POLLING_INTERVAL'') \<longrightarrow> pollingInterval cfg = 15000) \<and>
      (missingOrFalsy (env ''STALLED_JOB_TIMEOUT'') \<longrightarrow> stalledJobTimeout cfg = 60000) \<and>
      (missingOrFalsy (env ''CIRCUIT_BREAKER_RESET_TIMEOUT'')
         \<longrightarrow> circuitBreakerResetTimeout cfg = 15000) \<and>
      (missingOrFalsy (env ''RETRY_DELAY'') \<longrightarrow> retryDelay cfg = 15000) \<and>
      (\<not> truthy (env ''WORKER_ID'') \<longrightarrow> id_cfg cfg = ''worker1'') \<and>
      (\<forall>s n. env ''POLLING_INTERVAL'' = Some s \<and> parseInt s = Num n \<and> n \<noteq> 0
         \<longrightarrow> pollingInterval cfg = n) \<and>
      (\<forall>s n. env ''STALLED_JOB_TIMEOUT'' = Some s \<and> parseInt s = Num n \<and> n \<noteq> 0
         \<longrightarrow> stalledJobTimeout cfg = n) \<and>
      (\<forall>s n. env ''CIRCUIT_BREAKER_RESET_TIMEOUT'' = Some s \<and> parseInt s = Num n \<and> n \<noteq> 0
         \<longrightarrow> circuitBreakerResetTimeout cfg = n) \<and>
      (\<forall>s n. env ''RETRY_DELAY'' = Some s \<and> parseInt s = Num n \<and> n \<noteq> 0
         \<longrightarrow> retryDelay cfg = n)) \<and>
   ((\<exists>cfg. WORKER_CONFIG env = Some cfg) \<longleftrightarrow>
      \<not> isInfinite (parseInt (orString (env ''POLLING_INTERVAL'') [])) \<and>
      \<not> isInfinite (parseInt (orString (env ''STALLED_JOB_TIMEOUT'') [])) \<and>
      \<not> isInfinite (parseInt (orString (env ''CIRCUIT_BREAKER_RESET_TIMEOUT'') [])) \<and>
      \<not> isInfinite (parseInt (orString (env ''RETRY_DELAY'') []))) \<and>
   missingOrFalsy (Some ''0'') \<and> parseInt ''0'' = Num 0 \<and>
   \<not> missingOrFalsy (Some ''15abc'') \<and> parseInt ''15abc'' = Num 15 \<and>
   parseInt ''9007199254740993'' = Num 9007199254740992 \<and>
   (\<forall>createClient cfg ws fuel.
      truthy (env ''NEXT_PUBLIC_SUPABASE_URL'') \<and> truthy (env ''SUPABASE_SERVICE_ROLE_KEY'') \<and>
      createClient (orString (env ''NEXT_PUBLIC_SUPABASE_URL'') [])
        (orString (env ''SUPABASE_SERVICE_ROLE_KEY'') []) = None \<and>
      WORKER_CONFIG env = Some cfg \<longrightarrow>
      runModule createClient env ws fuel = Some (startWorker cfg ws fuel (topLevelListeners cfg [])) \<and>
      snd (snd (startWorker cfg ws fuel (topLevelListeners cfg []))) = None \<and>
      length (filter isClaim (fst (snd (startWorker cfg ws fuel (topLevelListeners cfg [])))))
        = fuel)"
proof -
  have fields: "(missingOrFalsy (env ''POLLING_INTERVAL'') \<longrightarrow> pollingInterval cfg = 15000) \<and>
      (missingOrFalsy (env ''STALLED_JOB_TIMEOUT'') \<longrightarrow> stalledJobTimeout cfg = 60000) \<and>
      (missingOrFalsy (env ''CIRCUIT_BREAKER_RESET_TIMEOUT'')
         \<longrightarrow> circuitBreakerResetTimeout cfg = 15000) \<and>
      (missingOrFalsy (env ''RETRY_DELAY'') \<longrightarrow> retryDelay cfg = 15000) \<and>
      (\<not> truthy (env ''WORKER_ID'') \<longrightarrow> id_cfg cfg = ''worker1'') \<and>
      (\<forall>s n. env ''POLLING_INTERVAL'' = Some s \<and> parseInt s = Num n \<and> n \<noteq> 0
         \<longrightarrow> pollingInterval cfg = n) \<and>
      (\<forall>s n. env ''STALLED_JOB_TIMEOUT'' = Some s \<and> parseInt s = Num n \<and> n \<noteq> 0
         \<longrightarrow> stalledJobTimeout cfg = n) \<and>
      (\<forall>s n. env ''CIRCUIT_BREAKER_RESET_TIMEOUT'' = Some s \<and> parseInt s = Num n \<and> n \<noteq> 0
         \<longrightarrow> circuitBreakerResetTimeout cfg = n) \<and>
      (\<forall>s n. env ''RETRY_DELAY'' = Some s \<and> parseInt s = Num n \<and> n \<noteq> 0
         \<longrightarrow> retryDelay cfg = n)" if some: "WORKER_CONFIG env = Some cfg" for cfg
  proof -
    note p = WORKER_CONFIG_SomeD(1) [OF some] and s = WORKER_CONFIG_SomeD(2) [OF some]
      and c = WORKER_CONFIG_SomeD(3) [OF some] and r = WORKER_CONFIG_SomeD(4) [OF some]
      and i = WORKER_CONFIG_SomeD(5) [OF some]
    have w: "\<not> truthy (env ''WORKER_ID'') \<longrightarrow> id_cfg cfg = ''worker1''"
      by (simp add: i truthy_def orString_def split: option.splits)
    have f1: "missingOrFalsy (env ''POLLING_INTERVAL'') \<longrightarrow> pollingInterval cfg = 15000"
      using p by (auto simp: orNumber_default)
    have f2: "missingOrFalsy (env ''STALLED_JOB_TIMEOUT'') \<longrightarrow> stalledJobTimeout cfg = 60000"
      using s by (auto simp: orNumber_default)
    have f3: "missingOrFalsy (env ''CIRCUIT_BREAKER_RESET_TIMEOUT'')
         \<longrightarrow> circuitBreakerResetTimeout cfg = 15000"
      using c by (auto simp: orNumber_default)
    have f4: "missingOrFalsy (env ''RETRY_DELAY'') \<longrightarrow> retryDelay cfg = 15000"
      using r by (auto simp: orNumber_default)
    have g1: "\<forall>s n. env ''POLLING_INTERVAL'' = Some s \<and> parseInt s = Num n \<and> n \<noteq> 0
         \<longrightarrow> pollingInterval cfg = n"
      using p by (auto simp: orNumber_parsed)
    have g2: "\<forall>s n. env ''STALLED_JOB_TIMEOUT'' = Some s \<and> parseInt s = Num n \<and> n \<noteq> 0
         \<longrightarrow> stalledJobTimeout cfg = n"
      using s by (auto simp: orNumber_parsed)
    have g3: "\<forall>s n. env ''CIRCUIT_BREAKER_RESET_TIMEOUT'' = Some s \<and> parseInt s = Num n \<and> n \<noteq> 0
         \<longrightarrow> circuitBreakerResetTimeout cfg = n"
      using c by (auto simp: orNumber_parsed)
    have g4: "\<forall>s n. env ''RETRY_DELAY'' = Some s \<and> parseInt s = Num n \<and> n \<noteq> 0
         \<longrightarrow> retryDelay cfg = n"
      using r by (auto simp: orNumber_parsed)
    show ?thesis
      by (intro conjI f1 f2 f3 f4 w g1 g2 g3 g4)
  qed
  have ex: "(\<exists>cfg. WORKER_CONFIG env = Some cfg) \<longleftrightarrow>
      \<not> isInfinite (parseInt (orString (env ''POLLING_INTERVAL'') [])) \<and>
      \<not> isInfinite (parseInt (orString (env ''STALLED_JOB_TIMEOUT'') [])) \<and>
      \<not> isInfinite (parseInt (orString (env ''CIRCUIT_BREAKER_RESET_TIMEOUT'') [])) \<and>
      \<not> isInfinite (parseInt (orString (env ''RETRY_DELAY'') []))"
    using WORKER_CONFIG_None [of env] by (cases "WORKER_CONFIG env") simp_all
  have g: "missingOrFalsy (Some ''0'')" "\<not> missingOrFalsy (Some ''15abc'')"
    by (simp_all add: missingOrFalsy_def parseInt_zero parseInt_15abc)
  have run: "runModule createClient env ws fuel
        = Some (startWorker cfg ws fuel (topLevelListeners cfg [])) \<and>
      snd (snd (startWorker cfg ws fuel (topLevelListeners cfg []))) = None \<and>
      length (filter isClaim (fst (snd (startWorker cfg ws fuel (topLevelListeners cfg [])))))
        = fuel"
    if "truthy (env ''NEXT_PUBLIC_SUPABASE_URL'')" "truthy (env ''SUPABASE_SERVICE_ROLE_KEY'')"
      "createClient (orString (env ''NEXT_PUBLIC_SUPABASE_URL'') [])
        (orString (env ''SUPABASE_SERVICE_ROLE_KEY'') []) = None"
      "WORKER_CONFIG env = Some cfg" for createClient cfg ws fuel
    using that by (simp add: runModule_started startWorker_claims) (simp add: startWorker_eq)
  show ?thesis
  proof (intro conjI)
    show "\<forall>cfg. WORKER_CONFIG env = Some cfg \<longrightarrow>
      (missingOrFalsy (env ''POLLING_INTERVAL'') \<longrightarrow> pollingInterval cfg = 15000) \<and>
      (missingOrFalsy (env ''STALLED_JOB_TIMEOUT'') \<longrightarrow> stalledJobTimeout cfg = 60000) \<and>
      (missingOrFalsy (env ''CIRCUIT_BREAKER_RESET_TIMEOUT'')
         \<longrightarrow> circuitBreakerResetTimeout cfg = 15000) \<and>
      (missingOrFalsy (env ''RETRY_DELAY'') \<longrightarrow> retryDelay cfg = 15000) \<and>
      (\<not> truthy (env ''WORKER_ID'') \<longrightarrow> id_cfg cfg = ''worker1'') \<and>
      (\<forall>s n. env ''POLLING_INTERVAL'' = Some s \<and> parseInt s = Num n \<and> n \<noteq> 0
         \<longrightarrow> pollingInterval cfg = n) \<and>
      (\<forall>s n. env ''STALLED_JOB_TIMEOUT'' = Some s \<and> parseInt s = Num n \<and> n \<noteq> 0
         \<longrightarrow> stalledJobTimeout cfg = n) \<and>
      (\<forall>s n. env ''CIRCUIT_BREAKER_RESET_TIMEOUT'' = Some s \<and> parseInt s = Num n \<and> n \<noteq> 0
         \<longrightarrow> circuitBreakerResetTimeout cfg = n) \<and>
      (\<forall>s n. env ''RETRY_DELAY'' = Some s \<and> parseInt s = Num n \<and> n \<noteq> 0
         \<longrightarrow> retryDelay cfg = n)"
      by (intro allI impI) (rule fields)
    show "\<forall>createClient cfg ws fuel.
      truthy (env ''NEXT_PUBLIC_SUPABASE_URL'') \<and> truthy (env ''SUPABASE_SERVICE_ROLE_KEY'') \<and>
      createClient (orString (env ''NEXT_PUBLIC_SUPABASE_URL'') [])
        (orString (env ''SUPABASE_SERVICE_ROLE_KEY'') []) = None \<and>
      WORKER_CONFIG env = Some cfg \<longrightarrow>
      runModule createClient env ws fuel = Some (startWorker cfg ws fuel (topLevelListeners cfg [])) \<and>
      snd (snd (startWorker cfg ws fuel (topLevelListeners cfg []))) = None \<and>
      length (filter isClaim (fst (snd (startWorker cfg ws fuel (topLevelListeners cfg [])))))
        = fuel"
      by (intro allI impI, elim conjE) (rule run)
  qed (rule ex g parseInt_zero parseInt_15abc parseInt_rounds)+
qed

lemma WORKER_CONFIG_env0: "WORKER_CONFIG env0 = Some cfg0"
  by (simp add: WORKER_CONFIG_def env0_def cfg0_def DEFAULT_CONFIG_fields orString_def
      orNumber_def finite_number_def parseInt_zero parseInt_15abc parseInt_abc parseInt_Nil)

theorem config_defaults_witness:
  "WORKER_CONFIG env0 = Some cfg0 \<and>
   missingOrFalsy (env0 ''POLLING_INTERVAL'') \<and> pollingInterval cfg0 = 15000 \<and>
   missingOrFalsy (env0 ''STALLED_JOB_TIMEOUT'') \<and> stalledJobTimeout cfg0 = 60000 \<and>
   missingOrFalsy (env0 ''CIRCUIT_BREAKER_RESET_TIMEOUT'') \<and>
   circuitBreakerResetTimeout cfg0 = 15000 \<and>
   env0 ''RETRY_DELAY'' = Some ''15abc'' \<and> parseInt ''15abc'' = Num 15 \<and> retryDelay cfg0 = 15 \<and>
   \<not> truthy (env0 ''WORKER_ID'') \<and> id_cfg cfg0 = ''worker1'' \<and>
   truthy (env0 ''NEXT_PUBLIC_SUPABASE_URL'') \<and> truthy (env0 ''SUPABASE_SERVICE_ROLE_KEY'') \<and>
   createClient0 (orString (env0 ''NEXT_PUBLIC_SUPABASE_URL'') [])
     (orString (env0 ''SUPABASE_SERVICE_ROLE_KEY'') []) = None \<and>
   runModule createClient0 env0 (\<lambda>i. wEmpty) 3 =
     Some (startWorker cfg0 (\<lambda>i. wEmpty) 3 (topLevelListeners cfg0 [])) \<and>
   snd (snd (startWorker cfg0 (\<lambda>i. wEmpty) 3 (topLevelListeners cfg0 []))) = None \<and>
   length (filter isClaim (fst (snd (startWorker cfg0 (\<lambda>i. wEmpty) 3 (topLevelListeners cfg0 [])))))
     = 3"
proof -
  note t = config_defaults [of env0]
  note wc = WORKER_CONFIG_env0
  have h1: "missingOrFalsy (env0 ''POLLING_INTERVAL'')"
    by (simp add: env0_def missingOrFalsy_def parseInt_zero)
  have h2: "missingOrFalsy (env0 ''STALLED_JOB_TIMEOUT'')"
    by (simp add: env0_def missingOrFalsy_def)
  have h3: "missingOrFalsy (env0 ''CIRCUIT_BREAKER_RESET_TIMEOUT'')"
    by (simp add: env0_def missingOrFalsy_def parseInt_abc)
  have h4: "env0 ''RETRY_DELAY'' = Some ''15abc''"
    by (simp add: env0_def)
  have h5: "\<not> truthy (env0 ''WORKER_ID'')"
    by (simp add: env0_def truthy_def)
  have h6: "truthy (env0 ''NEXT_PUBLIC_SUPABASE_URL'')" "truthy (env0 ''SUPABASE_SERVICE_ROLE_KEY'')"
    by (simp_all add: env0_def truthy_def)
  have h7: "createClient0 (orString (env0 ''NEXT_PUBLIC_SUPABASE_URL'') [])
     (orString (env0 ''SUPABASE_SERVICE_ROLE_KEY'') []) = None"
    by (simp add: env0_def createClient0_def orString_def)
  have p15: "parseInt ''15abc'' = Num 15 \<and> (15 :: int) \<noteq> 0"
    by (simp add: parseInt_15abc)
  from t wc have fields:
      "(missingOrFalsy (env0 ''POLLING_INTERVAL'') \<longrightarrow> pollingInterval cfg0 = 15000) \<and>
       (missingOrFalsy (env0 ''STALLED_JOB_TIMEOUT'') \<longrightarrow> stalledJobTimeout cfg0 = 60000) \<and>
       (missingOrFalsy (env0 ''CIRCUIT_BREAKER_RESET_TIMEOUT'')
          \<longrightarrow> circuitBreakerResetTimeout cfg0 = 15000) \<and>
       (\<not> truthy (env0 ''WORKER_ID'') \<longrightarrow> id_cfg cfg0 = ''worker1'') \<and>
       (\<forall>s n. env0 ''RETRY_DELAY'' = Some s \<and> parseInt s = Num n \<and> n \<noteq> 0
          \<longrightarrow> retryDelay cfg0 = n)"
    by blast
  from t have run: "truthy (env0 ''NEXT_PUBLIC_SUPABASE_URL'') \<and>
      truthy (env0 ''SUPABASE_SERVICE_ROLE_KEY'') \<and>
      createClient0 (orString (env0 ''NEXT_PUBLIC_SUPABASE_URL'') [])
        (orString (env0 ''SUPABASE_SERVICE_ROLE_KEY'') []) = None \<and>
      WORKER_CONFIG env0 = Some cfg0 \<longrightarrow>
      runModule createClient0 env0 (\<lambda>i. wEmpty) 3 =
        Some (startWorker cfg0 (\<lambda>i. wEmpty) 3 (topLevelListeners cfg0 [])) \<and>
      snd (snd (startWorker cfg0 (\<lambda>i. wEmpty) 3 (topLevelListeners cfg0 []))) = None \<and>
      length (filter isClaim
        (fst (snd (startWorker cfg0 (\<lambda>i. wEmpty) 3 (topLevelListeners cfg0 []))))) = 3"
    by blast
  from fields h1 h2 h3 h4 h5 p15 have vals: "pollingInterval cfg0 = 15000"
    "stalledJobTimeout cfg0 = 60000" "circuitBreakerResetTimeout cfg0 = 15000"
    "id_cfg cfg0 = ''worker1''" "retryDelay cfg0 = 15"
    by blast+
  from run h6 h7 wc have r: "runModule createClient0 env0 (\<lambda>i. wEmpty) 3 =
        Some (startWorker cfg0 (\<lambda>i. wEmpty) 3 (topLevelListeners cfg0 []))"
    "snd (snd (startWorker cfg0 (\<lambda>i. wEmpty) 3 (topLevelListeners cfg0 []))) = None"
    "length (filter isClaim
        (fst (snd (startWorker cfg0 (\<lambda>i. wEmpty) 3 (topLevelListeners cfg0 []))))) = 3"
    by blast+
  show ?thesis
    by (intro conjI wc h1 h2 h3 h4 h5 h6 h7 vals r parseInt_15abc)
qed

end
